theory Spec2Isabelle
  imports Main "HOL-Library.Finite_Map"
begin

section \<open>Go strings\<close>

text \<open>
  A Go \<open>string\<close> is a byte sequence; it is modelled as \<open>string\<close> (a \<open>char list\<close>, one
  \<open>char\<close> per byte).  The functions of package \<open>strings\<close> that the validator calls are
  written out below.  \<open>strings.ToLower\<close>, whose Unicode tables are not reproduced here,
  is a function of the environment (see \<open>strings_ToLower\<close> below).
\<close>

fun HasPrefix :: "string \<Rightarrow> string \<Rightarrow> bool" where
  "HasPrefix s [] = True"
| "HasPrefix [] (p # ps) = False"
| "HasPrefix (c # s) (p # ps) = (c = p \<and> HasPrefix s ps)"

fun Contains :: "string \<Rightarrow> string \<Rightarrow> bool" where
  "Contains [] substr = (substr = [])"
| "Contains (c # s) substr = (HasPrefix (c # s) substr \<or> Contains s substr)"

definition TrimPrefix :: "string \<Rightarrow> string \<Rightarrow> string" where
  "TrimPrefix s prefix = (if HasPrefix s prefix then drop (length prefix) s else s)"

text \<open>
  \<open>strings.TrimSpace\<close> removes the leading and the trailing white space, as
  \<open>unicode.IsSpace\<close> defines it: the ASCII characters tab, line feed, vertical tab,
  form feed, carriage return and space, and the code points U+0085, U+00A0, U+1680,
  U+2000 to U+200A, U+2028, U+2029, U+202F, U+205F and U+3000, which stand in the
  string as their UTF-8 encodings.  \<open>spaceRuneLen encodings s\<close> is the number of bytes
  of the white-space character \<open>s\<close> starts with, or 0.  The trailing white space is
  found the same way on the reversed string with the reversed encodings.
\<close>

definition isSpace :: "char \<Rightarrow> bool" where
  "isSpace c = (c = CHR 0x09 \<or> c = CHR 0x0A \<or> c = CHR 0x0B \<or> c = CHR 0x0C
                \<or> c = CHR 0x0D \<or> c = CHR 0x20)"

definition unicodeSpaces :: "string list" where
  "unicodeSpaces =
     [[CHR 0xC2, CHR 0x85], [CHR 0xC2, CHR 0xA0], [CHR 0xE1, CHR 0x9A, CHR 0x80],
      [CHR 0xE2, CHR 0x80, CHR 0x80], [CHR 0xE2, CHR 0x80, CHR 0x81],
      [CHR 0xE2, CHR 0x80, CHR 0x82], [CHR 0xE2, CHR 0x80, CHR 0x83],
      [CHR 0xE2, CHR 0x80, CHR 0x84], [CHR 0xE2, CHR 0x80, CHR 0x85],
      [CHR 0xE2, CHR 0x80, CHR 0x86], [CHR 0xE2, CHR 0x80, CHR 0x87],
      [CHR 0xE2, CHR 0x80, CHR 0x88], [CHR 0xE2, CHR 0x80, CHR 0x89],
      [CHR 0xE2, CHR 0x80, CHR 0x8A], [CHR 0xE2, CHR 0x80, CHR 0xA8],
      [CHR 0xE2, CHR 0x80, CHR 0xA9], [CHR 0xE2, CHR 0x80, CHR 0xAF],
      [CHR 0xE2, CHR 0x81, CHR 0x9F], [CHR 0xE3, CHR 0x80, CHR 0x80]]"

fun spaceRuneLen :: "string list \<Rightarrow> string \<Rightarrow> nat" where
  "spaceRuneLen encodings [] = 0"
| "spaceRuneLen encodings (c # s) =
     (if isSpace c then 1
      else (case find (HasPrefix (c # s)) encodings of None \<Rightarrow> 0 | Some e \<Rightarrow> length e))"

function trimStart :: "string list \<Rightarrow> string \<Rightarrow> string" where
  "trimStart encodings s =
     (if spaceRuneLen encodings s = 0 then s
      else trimStart encodings (drop (spaceRuneLen encodings s) s))"
  by pat_completeness auto
termination
proof (relation "measure (\<lambda>(encodings, s). length s)")
  fix encodings :: "string list" and s :: string
  assume "spaceRuneLen encodings s \<noteq> 0"
  then have "s \<noteq> []" by (cases s) auto
  with \<open>spaceRuneLen encodings s \<noteq> 0\<close>
  show "((encodings, drop (spaceRuneLen encodings s) s), (encodings, s))
          \<in> measure (\<lambda>(encodings, s). length s)"
    by simp
qed simp

declare trimStart.simps [simp del]

definition TrimSpace :: "string \<Rightarrow> string" where
  "TrimSpace s = rev (trimStart (map rev unicodeSpaces) (rev (trimStart unicodeSpaces s)))"

definition Trim :: "string \<Rightarrow> string \<Rightarrow> string" where
  "Trim s cutset =
     rev (dropWhile (\<lambda>c. c \<in> set cutset) (rev (dropWhile (\<lambda>c. c \<in> set cutset) s)))"

text \<open>\<open>Cut s sep\<close> splits \<open>s\<close> around the first occurrence of \<open>sep\<close>.\<close>

fun Cut :: "string \<Rightarrow> string \<Rightarrow> (string \<times> string) option" where
  "Cut [] sep = (if sep = [] then Some ([], []) else None)"
| "Cut (c # s) sep =
     (if HasPrefix (c # s) sep then Some ([], drop (length sep) (c # s))
      else (case Cut s sep of None \<Rightarrow> None | Some (before, after) \<Rightarrow> Some (c # before, after)))"

text \<open>\<open>strings.SplitN(s, sep, 2)\<close>: at most two parts, the second the unsplit rest.\<close>

definition SplitN2 :: "string \<Rightarrow> string \<Rightarrow> string list" where
  "SplitN2 s sep = (case Cut s sep of None \<Rightarrow> [s] | Some (before, after) \<Rightarrow> [before, after])"

lemma Cut_shorter:
  "Cut s sep = Some (before, after) \<Longrightarrow> sep \<noteq> [] \<Longrightarrow> length after < length s"
proof (induction s arbitrary: before)
  case Nil
  then show ?case by simp
next
  case (Cons c s)
  show ?case
  proof (cases "HasPrefix (c # s) sep")
    case True
    with Cons.prems show ?thesis by (cases sep) auto
  next
    case False
    with Cons.prems obtain b where "Cut s sep = Some (b, after)"
      by (auto split: option.splits)
    from Cons.IH [OF this Cons.prems(2)] show ?thesis by simp
  qed
qed

text \<open>
  \<open>strings.Split(s, sep)\<close>.  The validator only splits at the non-empty separators
  \<open>"\n"\<close> and \<open>"image:"\<close>; for the empty separator Go explodes the string into its
  characters.
\<close>

function Split :: "string \<Rightarrow> string \<Rightarrow> string list" where
  "Split s sep =
     (if sep = [] then map (\<lambda>c. [c]) s
      else (case Cut s sep of None \<Rightarrow> [s] | Some (before, after) \<Rightarrow> before # Split after sep))"
  by pat_completeness auto

termination
  by (relation "measure (\<lambda>(s, sep). length s)") (auto dest: Cut_shorter)

declare Split.simps [simp del]

text \<open>Lower-casing of ASCII text, with which \<open>strings.ToLower\<close> agrees on ASCII text.\<close>

definition toLowerChar :: "char \<Rightarrow> char" where
  "toLowerChar c =
     (case map_of (zip ''ABCDEFGHIJKLMNOPQRSTUVWXYZ'' ''abcdefghijklmnopqrstuvwxyz'') c of
        None \<Rightarrow> c
      | Some l \<Rightarrow> l)"

definition ToLower_ascii :: "string \<Rightarrow> string" where
  "ToLower_ascii s = map toLowerChar s"

text \<open>\<open>strings.Count(s, "/")\<close> for a one-byte separator.\<close>

definition CountByte :: "string \<Rightarrow> char \<Rightarrow> nat" where
  "CountByte s c = length (filter (\<lambda>x. x = c) s)"

text \<open>The verb \<open>%d\<close> of \<open>fmt.Sprintf\<close>.\<close>

definition digitChar :: "nat \<Rightarrow> char" where
  "digitChar d =
     (if d = 0 then CHR ''0'' else if d = 1 then CHR ''1'' else if d = 2 then CHR ''2''
      else if d = 3 then CHR ''3'' else if d = 4 then CHR ''4'' else if d = 5 then CHR ''5''
      else if d = 6 then CHR ''6'' else if d = 7 then CHR ''7'' else if d = 8 then CHR ''8''
      else CHR ''9'')"

function showNat :: "nat \<Rightarrow> string" where
  "showNat n = (if n < 10 then [digitChar n] else showNat (n div 10) @ [digitChar (n mod 10)])"
  by pat_completeness auto

termination
  by (relation "measure id") auto

declare showNat.simps [simp del]

definition showInt :: "int \<Rightarrow> string" where
  "showInt i = (if i < 0 then ''-'' @ showNat (nat (- i)) else showNat (nat i))"

lemma Contains_Cut: "Contains s sep \<Longrightarrow> Cut s sep \<noteq> None"
  by (induction s) (auto split: option.splits)

lemma Split_length_ge_2: "Contains s sep \<Longrightarrow> sep \<noteq> [] \<Longrightarrow> 2 \<le> length (Split s sep)"
proof -
  assume c: "Contains s sep" and ne: "sep \<noteq> []"
  from Contains_Cut [OF c] obtain b a where cut: "Cut s sep = Some (b, a)"
    by auto
  have "1 \<le> length (Split a sep)"
    using ne by (subst Split.simps) (simp split: option.splits)
  with cut ne show ?thesis
    by (subst Split.simps) simp
qed

section \<open>The manifest model (package util)\<close>

text \<open>
  The structs of the manifest, with the fields the validator reads.  The remaining
  fields of the Go structs (\<open>Architecture\<close>, \<open>Variables\<close>, \<open>Constants\<close>, \<open>Only\<close>,
  \<open>Group\<close>, the chart and file attributes, ...) are never inspected by the code
  modelled here and are left out.
\<close>

record ZarfFile =
  Source :: string

record ZarfChart =
  Chart_Name :: string
  ValuesFiles :: "string list"

record ZarfManifest =
  Manifest_Files :: "string list"

record ZarfDataInjection =
  DataInjection_Source :: string

record ZarfComponentScripts =
  Prepare :: "string list"
  Before :: "string list"
  After :: "string list"

record ZarfComponent =
  Name :: string
  Default :: bool
  Required :: bool
  DepsWith :: "string list"
  Files :: "ZarfFile list"
  Charts :: "ZarfChart list"
  Manifests :: "ZarfManifest list"
  Images :: "string list"
  Repos :: "string list"
  DataInjections :: "ZarfDataInjection list"
  Scripts :: ZarfComponentScripts

record ZarfMetadata =
  Metadata_Name :: string
  Metadata_Description :: string
  Metadata_Version :: string

record ZarfYaml =
  Kind :: string
  Metadata :: ZarfMetadata
  Components :: "ZarfComponent list"

section \<open>The environment\<close>

text \<open>
  The validator reads files, asks for file sizes, parses YAML and runs the processes
  \<open>zarf\<close>, \<open>git\<close> and \<open>cat\<close>.  None of that is code of the repository under study
  (packages \<open>os\<close>, \<open>path/filepath\<close>, \<open>yaml.v2\<close> and the process executor), so the
  answers of the outside world are a parameter: a \<open>world\<close> gives, for every call, what
  the call returns.  A Go \<open>error\<close> is modelled by its message; \<open>None\<close> is \<open>nil\<close>.
  The world stays the same during one validation run.
\<close>

datatype stat_result = StatOK int | StatNotExist | StatError string

record walk_visit =
  visit_path :: string
  visit_name :: string
  visit_isDir :: bool
  visit_err :: "string option"

record world =
  os_Stat :: "string \<Rightarrow> stat_result"
  os_ReadFile :: "string \<Rightarrow> string + string"
  yaml_Unmarshal :: "string \<Rightarrow> string + ZarfYaml"
  RunProcessAndCaptureOutput :: "string \<Rightarrow> string list \<Rightarrow> string \<times> string option"
  CreateProcess :: "string \<Rightarrow> string list \<Rightarrow> string option"
  CombinedOutput :: "string \<Rightarrow> string list \<Rightarrow> string \<Rightarrow> string \<times> string option"
  filepath_Walk :: "string \<Rightarrow> walk_visit list"
  strings_ToLower :: "string \<Rightarrow> string"

text \<open>
  \<open>os_Stat w p\<close> is the answer of \<open>os.Stat(p)\<close>: the size of the file, the error for
  which \<open>os.IsNotExist\<close> holds, or another error.  \<open>CombinedOutput w exe args dir\<close> is
  the output and the exit error of the process run in directory \<open>dir\<close>.
  \<open>filepath_Walk w root\<close> lists the calls \<open>filepath.Walk(root, fn)\<close> makes to \<open>fn\<close>, in
  order, as long as \<open>fn\<close> returns \<open>nil\<close>: the path, the name and kind of the entry and
  the error passed in.

  \<open>strings_ToLower w\<close> is \<open>strings.ToLower\<close>.
\<close>

text \<open>
  Paths (package \<open>path/filepath\<close>, with the separator \<open>/\<close>).  \<open>filepath.Clean\<close> drops
  empty and \<open>.\<close> elements, resolves \<open>..\<close> elements against the element before them and
  gives \<open>.\<close> for the empty result; \<open>filepath.Join\<close> joins the non-empty elements and
  cleans the result; \<open>filepath.Dir\<close> cleans what stands before the last element.
\<close>

fun joinWith :: "string \<Rightarrow> string list \<Rightarrow> string" where
  "joinWith sep [] = []"
| "joinWith sep [x] = x"
| "joinWith sep (x # y # ys) = x @ sep @ joinWith sep (y # ys)"

definition cleanPush :: "bool \<Rightarrow> string \<Rightarrow> string list \<Rightarrow> string list" where
  "cleanPush rooted element stack =
     (if element = [] \<or> element = ''.'' then stack
      else if element = ''..''
      then (if stack \<noteq> [] \<and> last stack \<noteq> ''..'' then butlast stack
            else if rooted then stack
            else stack @ [''..''])
      else stack @ [element])"

definition filepath_Clean :: "string \<Rightarrow> string" where
  "filepath_Clean path =
     (if path = [] then ''.''
      else (let rooted = HasPrefix path ''/'';
                stack = fold (cleanPush rooted) (Split path ''/'') [];
                out = (if rooted then ''/'' else []) @ joinWith ''/'' stack
            in if out = [] then ''.'' else out))"

definition filepath_Join :: "string \<Rightarrow> string \<Rightarrow> string" where
  "filepath_Join a b =
     (let elements = filter (\<lambda>e. e \<noteq> []) [a, b]
      in if elements = [] then [] else filepath_Clean (joinWith ''/'' elements))"

definition filepath_Dir :: "string \<Rightarrow> string" where
  "filepath_Dir path =
     filepath_Clean (rev (dropWhile (\<lambda>c. c \<noteq> CHR ''/'') (rev path)))"

text \<open>\<open>UnmarshalZarfYaml\<close> and \<open>ReadZarfYaml\<close> of package util.\<close>

definition UnmarshalZarfYaml :: "world \<Rightarrow> string \<Rightarrow> string + ZarfYaml" where
  "UnmarshalZarfYaml w yamlBytes =
     (case yaml_Unmarshal w yamlBytes of
        Inl err \<Rightarrow> Inl (''could not unmarshal 'zarf.yaml': '' @ err)
      | Inr zarfYaml \<Rightarrow> Inr zarfYaml)"

definition ReadZarfYaml :: "world \<Rightarrow> string \<Rightarrow> string + ZarfYaml" where
  "ReadZarfYaml w path =
     (case os_ReadFile w path of
        Inl err \<Rightarrow> Inl (''could not read 'zarf.yaml': '' @ err)
      | Inr yamlBytes \<Rightarrow> UnmarshalZarfYaml w yamlBytes)"

text \<open>\<open>IsZarfPackage\<close>: the manifest exists unless \<open>os.Stat\<close> says it does not.\<close>

definition IsZarfPackage :: "world \<Rightarrow> string \<Rightarrow> bool" where
  "IsZarfPackage w dir = (os_Stat w (filepath_Join dir ''zarf.yaml'') \<noteq> StatNotExist)"

section \<open>Validation results\<close>

record ValidationResult =
  PackagePath :: string
  Valid :: bool
  Errors :: "string list"
  Warnings :: "string list"

record PackageValidator =
  UseSDK :: bool

definition NewPackageValidator :: PackageValidator where
  "NewPackageValidator = \<lparr>UseSDK = True\<rparr>"

text \<open>\<open>result.Errors = append(result.Errors, msg)\<close> and the same for warnings.\<close>

definition appendError :: "string \<Rightarrow> ValidationResult \<Rightarrow> ValidationResult" where
  "appendError msg result = result\<lparr>Errors := Errors result @ [msg]\<rparr>"

definition appendWarning :: "string \<Rightarrow> ValidationResult \<Rightarrow> ValidationResult" where
  "appendWarning msg result = result\<lparr>Warnings := Warnings result @ [msg]\<rparr>"

fun HasValidationErrors :: "ValidationResult list \<Rightarrow> bool" where
  "HasValidationErrors [] = False"
| "HasValidationErrors (result # results) =
     (if \<not> Valid result then True else HasValidationErrors results)"

section \<open>Cycle detection\<close>

text \<open>
  \<open>hasDependencyCycle\<close> is a depth-first search.  The Go map \<open>visited\<close> is shared by all
  recursive calls (a Go map is a reference), so the model threads it through: each call
  returns its answer and the map as it left it.  Only \<open>true\<close> is ever stored, so the map
  is a set of names and \<open>len(visited) > 0\<close> is \<open>visited \<noteq> {}\<close>.  The component map is a
  finite map from names to components.  \<open>hasDependencyCycle_deps\<close> is the \<open>for\<close> loop
  over \<open>component.DepsWith\<close>, which returns as soon as one call answers \<open>true\<close>.
\<close>

function hasDependencyCycle ::
    "string \<Rightarrow> string \<Rightarrow> (string, ZarfComponent) fmap \<Rightarrow> string set \<Rightarrow> bool \<times> string set"
  and hasDependencyCycle_deps ::
    "string \<Rightarrow> string list \<Rightarrow> (string, ZarfComponent) fmap \<Rightarrow> string set \<Rightarrow> bool \<times> string set"
where
  "hasDependencyCycle start current componentMap visited =
     (if current = start \<and> visited \<noteq> {} then (True, visited)
      else if current \<in> visited then (False, visited)
      else (case fmlookup componentMap current of
              None \<Rightarrow> (False, insert current visited)
            | Some component \<Rightarrow>
                hasDependencyCycle_deps start (DepsWith component) componentMap
                  (insert current visited)))"
| "hasDependencyCycle_deps start [] componentMap visited = (False, visited)"
| "hasDependencyCycle_deps start (dep # deps) componentMap visited =
     (let (found, visited') = hasDependencyCycle start dep componentMap visited
      in if found then (True, visited')
         else hasDependencyCycle_deps start deps componentMap visited')"
  by pat_completeness auto

lemma visited_grows_dom:
  "hasDependencyCycle_hasDependencyCycle_deps_dom (Inl (start, current, componentMap, visited)) \<Longrightarrow>
     visited \<subseteq> snd (hasDependencyCycle start current componentMap visited)"
  "hasDependencyCycle_hasDependencyCycle_deps_dom (Inr (start, deps, componentMap, visited)) \<Longrightarrow>
     visited \<subseteq> snd (hasDependencyCycle_deps start deps componentMap visited)"
proof (induction rule: hasDependencyCycle_hasDependencyCycle_deps.pinduct)
  case (1 start current componentMap visited)
  then show ?case
    by (auto simp: hasDependencyCycle.psimps split: option.splits)
next
  case (2 start componentMap visited)
  then show ?case by (simp add: hasDependencyCycle_deps.psimps)
next
  case (3 start dep deps componentMap visited)
  obtain found visited' where
    r: "hasDependencyCycle start dep componentMap visited = (found, visited')"
    by (cases "hasDependencyCycle start dep componentMap visited")
  with 3(2) have sub: "visited \<subseteq> visited'"
    by simp
  show ?case
  proof (cases found)
    case True
    with r sub 3(1) show ?thesis
      by (simp add: hasDependencyCycle_deps.psimps)
  next
    case False
    from 3(3) [OF r [symmetric] refl False]
    have "visited' \<subseteq> snd (hasDependencyCycle_deps start deps componentMap visited')" .
    with r sub False 3(1) show ?thesis
      by (auto simp: hasDependencyCycle_deps.psimps)
  qed
qed

lemma card_unvisited_less:
  "fmlookup componentMap current = Some component \<Longrightarrow> current \<notin> visited \<Longrightarrow>
     card (fmdom' componentMap - insert current visited) < card (fmdom' componentMap - visited)"
proof -
  assume l: "fmlookup componentMap current = Some component" and nv: "current \<notin> visited"
  from l have "current \<in> fmdom' componentMap"
    by (simp add: fmdom'I)
  with nv have "current \<in> fmdom' componentMap - visited"
    by simp
  then have "card (fmdom' componentMap - visited - {current}) < card (fmdom' componentMap - visited)"
    by (intro card_Diff1_less) simp_all
  moreover have "fmdom' componentMap - insert current visited = fmdom' componentMap - visited - {current}"
    by auto
  ultimately show ?thesis by simp
qed

lemma card_unvisited_mono:
  "visited \<subseteq> visited' \<Longrightarrow>
     card (fmdom' componentMap - visited') \<le> card (fmdom' componentMap - visited)"
  by (intro card_mono) auto

termination hasDependencyCycle
proof (relation "inv_image (less_than <*lex*> less_than)
     (\<lambda>x. case x of
        Inl (start, current, componentMap, visited) \<Rightarrow> (card (fmdom' componentMap - visited), 0)
      | Inr (start, deps, componentMap, visited) \<Rightarrow>
          (card (fmdom' componentMap - visited), Suc (length deps)))", goal_cases)
  case 1
  show ?case by (intro wf_inv_image wf_lex_prod wf_less_than)
next
  case (2 start current componentMap visited component)
  then show ?case by (simp add: card_unvisited_less)
next
  case (3 start dep deps componentMap visited)
  show ?case by simp
next
  case (4 start dep deps componentMap visited x xa y)
  then have "snd (hasDependencyCycle start dep componentMap visited) = y"
    by (metis snd_conv)
  moreover have "visited \<subseteq> snd (hasDependencyCycle start dep componentMap visited)"
    by (rule visited_grows_dom(1) [OF 4(4)])
  ultimately have "visited \<subseteq> y"
    by simp
  from card_unvisited_mono [OF this, of componentMap] show ?case
    by auto
qed

declare hasDependencyCycle.simps [simp del]

section \<open>The validation passes (package zarf, validator.go)\<close>

text \<open>
  Every pass takes the result object and returns it updated (the Go code mutates it
  through a pointer), or \<open>Inl\<close> the error the Go function returns.
\<close>

subsection \<open>Version increment\<close>

definition validateVersionIncrement ::
    "world \<Rightarrow> string \<Rightarrow> ValidationResult \<Rightarrow> string + ValidationResult" where
  "validateVersionIncrement w packagePath result =
     (let currentZarfPath = filepath_Join packagePath ''zarf.yaml'' in
      case ReadZarfYaml w currentZarfPath of
        Inl err \<Rightarrow> Inl (''failed to read current zarf.yaml: '' @ err)
      | Inr currentContent \<Rightarrow>
          (case RunProcessAndCaptureOutput w ''git''
                  [''show'', ''HEAD~1:'' @ filepath_Join packagePath ''zarf.yaml''] of
             (previousContent, Some err) \<Rightarrow>
               Inr (appendWarning
                      ''Could not retrieve previous package version for comparison'' result)
           | (previousContent, None) \<Rightarrow>
               (case UnmarshalZarfYaml w previousContent of
                  Inl err \<Rightarrow>
                    Inr (appendWarning
                           ''Could not parse previous package version for comparison'' result)
                | Inr previousZarf \<Rightarrow>
                    if Metadata_Version (Metadata currentContent)
                         = Metadata_Version (Metadata previousZarf)
                    then
                      (let currentYamlStr =
                             fst (RunProcessAndCaptureOutput w ''cat'' [currentZarfPath])
                       in if currentYamlStr \<noteq> previousContent
                          then Inr ((appendError
                                 (''Package content changed but version not incremented (still ''
                                    @ Metadata_Version (Metadata currentContent) @ '')'')
                                 result)\<lparr>Valid := False\<rparr>)
                          else Inr result)
                    else Inr result)))"

subsection \<open>Image pinning\<close>

text \<open>
  The test applied to an image reference once the pass has cut it out of a line.  The
  Go code has this block twice, once for the items of an \<open>images:\<close> list and once for
  inline \<open>image:\<close> fields.
\<close>

definition checkImagePinned :: "string \<Rightarrow> ValidationResult \<Rightarrow> ValidationResult" where
  "checkImagePinned imageName result =
     (if Contains imageName '':'' \<and> \<not> Contains imageName ''@sha256:''
      then (if \<not> HasPrefix imageName ''{{'' \<and> \<not> HasPrefix imageName ''${''
            then appendWarning (''Image not pinned with digest - '' @ imageName) result
            else result)
      else result)"

abbreviation sq :: string where
  "sq \<equiv> [CHR 0x27]"

definition quoteCutset :: string where
  "quoteCutset = [CHR 0x22, CHR 0x27]"

text \<open>
  The body of the loop over the lines: it takes and returns the flag \<open>inImagesSection\<close>
  and the result.  The \<open>continue\<close> of the Go code is the first branch.  The element
  at index 1 of the split exists where it is read, since the line holds the separator
  (\<open>Split_length_ge_2\<close>).
\<close>

definition validateImagePinning_line ::
    "string \<Rightarrow> bool \<times> ValidationResult \<Rightarrow> bool \<times> ValidationResult" where
  "validateImagePinning_line originalLine state =
     (let inImagesSection = fst state;
          result = snd state;
          line = TrimSpace originalLine in
      if Contains line ''images:''
      then (True, result)
      else
        (let inImagesSection' =
               (if \<not> HasPrefix originalLine '' '' \<and> \<not> HasPrefix originalLine [CHR 0x09]
                   \<and> Contains line '':''
                then False else inImagesSection);
             result' =
               (if inImagesSection' \<and> HasPrefix line ''- ''
                then checkImagePinned
                       (Trim (TrimSpace (TrimPrefix line ''- '')) quoteCutset) result
                else result);
             result'' =
               (if Contains line ''image:''
                then checkImagePinned
                       (Trim (TrimSpace (Split line ''image:'' ! 1)) quoteCutset) result'
                else result')
         in (inImagesSection', result'')))"

fun validateImagePinning_lines ::
    "string list \<Rightarrow> bool \<times> ValidationResult \<Rightarrow> bool \<times> ValidationResult" where
  "validateImagePinning_lines [] state = state"
| "validateImagePinning_lines (originalLine # lines) state =
     validateImagePinning_lines lines (validateImagePinning_line originalLine state)"

definition validateImagePinning ::
    "world \<Rightarrow> string \<Rightarrow> ValidationResult \<Rightarrow> string + ValidationResult" where
  "validateImagePinning w packagePath result =
     (case os_ReadFile w (filepath_Join packagePath ''zarf.yaml'') of
        Inl err \<Rightarrow> Inl (''failed to read zarf.yaml for image pinning validation: '' @ err)
      | Inr content \<Rightarrow>
          Inr (snd (validateImagePinning_lines (Split content [CHR 0x0A]) (False, result))))"

subsection \<open>Components\<close>

definition isValidComponentName :: "world \<Rightarrow> string \<Rightarrow> bool" where
  "isValidComponentName w name =
     (if Contains name '' '' then False
      else if strings_ToLower w name \<noteq> name then False
      else True)"

text \<open>
  The body of the loop over the components; \<open>componentNames\<close> is the Go map of the
  names seen so far (only \<open>true\<close> is stored in it).
\<close>

definition validateComponents_step ::
    "world \<Rightarrow> ZarfComponent \<Rightarrow> string set \<Rightarrow> ValidationResult \<Rightarrow> ValidationResult" where
  "validateComponents_step w component componentNames result =
     (let result1 =
            (if Name component \<in> componentNames
             then appendError (''Duplicate component name: '' @ Name component) result
             else result);
          result2 =
            (if \<not> isValidComponentName w (Name component)
             then appendWarning
                    (''Component name '' @ sq @ Name component
                       @ sq @ '' doesn't follow naming conventions (lowercase, hyphens, no spaces)'')
                    result1
             else result1);
          result3 =
            (if Required component \<and> Default component
             then appendWarning
                    (''Component '' @ sq @ Name component
                       @ sq @ '' is both required and default (redundant)'')
                    result2
             else result2)
      in if length (Files component) = 0 \<and> length (Charts component) = 0
            \<and> length (Manifests component) = 0 \<and> length (Images component) = 0
            \<and> length (Repos component) = 0 \<and> length (DataInjections component) = 0
         then appendWarning
                (''Component '' @ sq @ Name component
                   @ sq @ '' appears to be empty (no files, charts, manifests, images, etc.)'')
                result3
         else result3)"

fun validateComponents_loop ::
    "world \<Rightarrow> ZarfComponent list \<Rightarrow> string set \<Rightarrow> ValidationResult \<Rightarrow> ValidationResult" where
  "validateComponents_loop w [] componentNames result = result"
| "validateComponents_loop w (component # components) componentNames result =
     validateComponents_loop w components (insert (Name component) componentNames)
       (validateComponents_step w component componentNames result)"

definition validateComponents ::
    "world \<Rightarrow> string \<Rightarrow> ValidationResult \<Rightarrow> string + ValidationResult" where
  "validateComponents w packagePath result =
     (case ReadZarfYaml w (filepath_Join packagePath ''zarf.yaml'') of
        Inl err \<Rightarrow> Inl (''failed to read zarf.yaml for component validation: '' @ err)
      | Inr zarfYaml \<Rightarrow>
          if length (Components zarfYaml) = 0
          then Inr (appendWarning ''Package has no components defined'' result)
          else Inr (validateComponents_loop w (Components zarfYaml) {} result))"

subsection \<open>Component dependencies\<close>

text \<open>The component map: a later component replaces an earlier one of the same name.\<close>

fun buildComponentMap ::
    "ZarfComponent list \<Rightarrow> (string, ZarfComponent) fmap \<Rightarrow> (string, ZarfComponent) fmap" where
  "buildComponentMap [] componentMap = componentMap"
| "buildComponentMap (component # components) componentMap =
     buildComponentMap components (fmupd (Name component) component componentMap)"

text \<open>
  The first inner loop: for every dependency, the existence check and the cycle check,
  each search with a fresh \<open>visited\<close> map.
\<close>

definition validateDeps_step ::
    "string \<Rightarrow> string \<Rightarrow> (string, ZarfComponent) fmap \<Rightarrow> ValidationResult
       \<Rightarrow> ValidationResult" where
  "validateDeps_step name dep componentMap result =
     (let result1 =
            (if fmlookup componentMap dep = None
             then appendError
                    (''Component '' @ sq @ name @ sq @ '' depends on non-existent component ''
                       @ sq @ dep @ sq)
                    result
             else result)
      in if fst (hasDependencyCycle name dep componentMap {})
         then appendError
                (''Circular dependency detected between '' @ sq @ name @ sq @ '' and ''
                   @ sq @ dep @ sq)
                result1
         else result1)"

fun validateDeps_loop ::
    "string \<Rightarrow> string list \<Rightarrow> (string, ZarfComponent) fmap \<Rightarrow> ValidationResult
       \<Rightarrow> ValidationResult" where
  "validateDeps_loop name [] componentMap result = result"
| "validateDeps_loop name (dep # deps) componentMap result =
     validateDeps_loop name deps componentMap (validateDeps_step name dep componentMap result)"

text \<open>The second inner loop: self-dependencies.\<close>

fun validateSelfDeps_loop :: "string \<Rightarrow> string list \<Rightarrow> ValidationResult \<Rightarrow> ValidationResult" where
  "validateSelfDeps_loop name [] result = result"
| "validateSelfDeps_loop name (dep # deps) result =
     validateSelfDeps_loop name deps
       (if dep = name
        then appendError (''Component '' @ sq @ name @ sq @ '' cannot depend on itself'') result
        else result)"

fun validateComponentDependencies_loop ::
    "ZarfComponent list \<Rightarrow> (string, ZarfComponent) fmap \<Rightarrow> ValidationResult
       \<Rightarrow> ValidationResult" where
  "validateComponentDependencies_loop [] componentMap result = result"
| "validateComponentDependencies_loop (component # components) componentMap result =
     validateComponentDependencies_loop components componentMap
       (validateSelfDeps_loop (Name component) (DepsWith component)
          (validateDeps_loop (Name component) (DepsWith component) componentMap result))"

definition validateComponentDependencies ::
    "world \<Rightarrow> string \<Rightarrow> ValidationResult \<Rightarrow> string + ValidationResult" where
  "validateComponentDependencies w packagePath result =
     (case ReadZarfYaml w (filepath_Join packagePath ''zarf.yaml'') of
        Inl err \<Rightarrow> Inl (''failed to read zarf.yaml for dependency validation: '' @ err)
      | Inr zarfYaml \<Rightarrow>
          if length (Components zarfYaml) = 0 then Inr result
          else Inr (validateComponentDependencies_loop (Components zarfYaml)
                      (buildComponentMap (Components zarfYaml) fmempty) result))"

subsection \<open>Security heuristics\<close>

definition checkManifestSecurity ::
    "world \<Rightarrow> string \<Rightarrow> ValidationResult \<Rightarrow> string \<Rightarrow> string + ValidationResult" where
  "checkManifestSecurity w manifestPath result componentName =
     (case os_ReadFile w manifestPath of
        Inl err \<Rightarrow> Inl err
      | Inr contentStr \<Rightarrow>
          (let result1 =
                 (if Contains contentStr ''privileged: true''
                  then appendWarning
                         (''Component '' @ sq @ componentName
                            @ sq @ '' manifest may use privileged containers'')
                         result
                  else result);
               result2 =
                 (if Contains contentStr ''hostNetwork: true''
                  then appendWarning
                         (''Component '' @ sq @ componentName
                            @ sq @ '' manifest uses host networking'')
                         result1
                  else result1)
           in Inr (if Contains contentStr ''hostPID: true'' \<or> Contains contentStr ''hostIPC: true''
                   then appendWarning
                          (''Component '' @ sq @ componentName
                             @ sq @ '' manifest uses host PID or IPC'')
                          result2
                   else result2)))"

definition secretPatterns :: "string list" where
  "secretPatterns =
     [''password='', ''PASSWORD='', ''token='', ''TOKEN='', ''secret='', ''SECRET='',
      ''key='', ''KEY='', ''api_key'', ''API_KEY'', ''aws_access'', ''AWS_ACCESS'']"

definition containsPotentialSecrets :: "world \<Rightarrow> string \<Rightarrow> bool" where
  "containsPotentialSecrets w script =
     (let scriptLower = strings_ToLower w script
      in list_ex (\<lambda>pattern. Contains scriptLower (strings_ToLower w pattern)) secretPatterns)"

definition isUntrustedRegistry :: "string \<Rightarrow> bool" where
  "isUntrustedRegistry img =
     (if \<not> Contains img ''/''
         \<or> (\<not> Contains img ''.'' \<and> CountByte img (CHR ''/'') = 1)
      then True
      else list_ex (\<lambda>registry. HasPrefix img registry) [''docker.io/'', ''index.docker.io/''])"

text \<open>The body of the loop over the files of one raw manifest.\<close>

definition security_file ::
    "world \<Rightarrow> string \<Rightarrow> string \<Rightarrow> string \<Rightarrow> ValidationResult \<Rightarrow> ValidationResult" where
  "security_file w packagePath componentName file result =
     (case checkManifestSecurity w (filepath_Join packagePath file) result componentName of
        Inl err \<Rightarrow>
          appendWarning (''Failed to analyze manifest security for '' @ file @ '': '' @ err) result
      | Inr result' \<Rightarrow> result')"

definition security_script ::
    "world \<Rightarrow> string \<Rightarrow> string \<Rightarrow> ValidationResult \<Rightarrow> ValidationResult" where
  "security_script w componentName script result =
     (if containsPotentialSecrets w script
      then appendWarning
             (''Component '' @ sq @ componentName
                @ sq @ '' script may contain hardcoded secrets or sensitive data'')
             result
      else result)"

definition security_image :: "string \<Rightarrow> string \<Rightarrow> ValidationResult \<Rightarrow> ValidationResult" where
  "security_image componentName img result =
     (if isUntrustedRegistry img
      then appendWarning
             (''Component '' @ sq @ componentName
                @ sq @ '' uses image from potentially untrusted registry: '' @ img)
             result
      else result)"

text \<open>The body of the loop over the components; the inner loops are folds.\<close>

definition security_component ::
    "world \<Rightarrow> string \<Rightarrow> ZarfComponent \<Rightarrow> ValidationResult \<Rightarrow> ValidationResult" where
  "security_component w packagePath component result =
     (let result1 =
            fold (\<lambda>manifest. fold (security_file w packagePath (Name component))
                                   (Manifest_Files manifest))
              (Manifests component) result;
          scripts = Scripts component;
          result2 =
            (if length (Prepare scripts) > 0 \<or> length (Before scripts) > 0
                \<or> length (After scripts) > 0
             then fold (security_script w (Name component))
                    ((Prepare scripts @ Before scripts) @ After scripts) result1
             else result1)
      in fold (security_image (Name component)) (Images component) result2)"

definition validateSecurityBestPractices ::
    "world \<Rightarrow> string \<Rightarrow> ValidationResult \<Rightarrow> string + ValidationResult" where
  "validateSecurityBestPractices w packagePath result =
     (case ReadZarfYaml w (filepath_Join packagePath ''zarf.yaml'') of
        Inl err \<Rightarrow> Inl (''failed to read zarf.yaml for security validation: '' @ err)
      | Inr zarfYaml \<Rightarrow>
          Inr (fold (security_component w packagePath) (Components zarfYaml) result))"

subsection \<open>Resource heuristics\<close>

definition resource_file ::
    "world \<Rightarrow> string \<Rightarrow> string \<Rightarrow> ZarfFile \<Rightarrow> ValidationResult \<Rightarrow> ValidationResult" where
  "resource_file w packagePath componentName file result =
     (case os_Stat w (filepath_Join packagePath (Source file)) of
        StatOK fileSize \<Rightarrow>
          (let sizeInMB = fileSize div (1024 * 1024)
           in if sizeInMB > 100
              then appendWarning
                     (''Component '' @ sq @ componentName @ sq @ '' includes large file (''
                        @ showInt sizeInMB @ ''MB): '' @ Source file)
                     result
              else result)
      | _ \<Rightarrow> result)"

definition valuesFileHasLimits :: "world \<Rightarrow> string \<Rightarrow> string \<Rightarrow> bool" where
  "valuesFileHasLimits w packagePath valuesFile =
     (case os_ReadFile w (filepath_Join packagePath valuesFile) of
        Inl err \<Rightarrow> False
      | Inr content \<Rightarrow> Contains content ''limits:'' \<or> Contains content ''requests:'')"

definition resource_chart ::
    "world \<Rightarrow> string \<Rightarrow> string \<Rightarrow> ZarfChart \<Rightarrow> ValidationResult \<Rightarrow> ValidationResult" where
  "resource_chart w packagePath componentName chart result =
     (let hasResourceLimits = list_ex (valuesFileHasLimits w packagePath) (ValuesFiles chart)
      in if \<not> hasResourceLimits
         then appendWarning
                (''Chart '' @ sq @ Chart_Name chart @ sq @ '' in component '' @ sq
                   @ componentName @ sq @ '' may not specify resource limits'')
                result
         else result)"

definition resource_component ::
    "world \<Rightarrow> string \<Rightarrow> ZarfComponent \<Rightarrow> ValidationResult \<Rightarrow> ValidationResult" where
  "resource_component w packagePath component result =
     (let result1 = fold (resource_file w packagePath (Name component)) (Files component) result;
          result2 =
            (if length (Images component) > 10
             then appendWarning
                    (''Component '' @ sq @ Name component @ sq @ '' includes many images (''
                       @ showNat (length (Images component))
                       @ '') which may impact package size'')
                    result1
             else result1)
      in fold (resource_chart w packagePath (Name component)) (Charts component) result2)"

definition validateResourceConstraints ::
    "world \<Rightarrow> string \<Rightarrow> ValidationResult \<Rightarrow> string + ValidationResult" where
  "validateResourceConstraints w packagePath result =
     (case ReadZarfYaml w (filepath_Join packagePath ''zarf.yaml'') of
        Inl err \<Rightarrow> Inl (''failed to read zarf.yaml for resource validation: '' @ err)
      | Inr zarfYaml \<Rightarrow>
          Inr (fold (resource_component w packagePath) (Components zarfYaml) result))"

subsection \<open>The fallback validation\<close>

definition validateBasic :: "world \<Rightarrow> string \<Rightarrow> string + ValidationResult" where
  "validateBasic w packagePath =
     (let result = \<lparr>PackagePath = packagePath, Valid = True, Errors = [], Warnings = []\<rparr> in
      case ReadZarfYaml w (filepath_Join packagePath ''zarf.yaml'') of
        Inl err \<Rightarrow>
          Inr (appendError (''Failed to parse zarf.yaml: '' @ err) (result\<lparr>Valid := False\<rparr>))
      | Inr zarfYaml \<Rightarrow>
          (let result1 =
                 (if Kind zarfYaml = []
                  then (appendError ''Missing 'kind' field in zarf.yaml'' result)\<lparr>Valid := False\<rparr>
                  else if Kind zarfYaml \<noteq> ''ZarfPackageConfig''
                  then (appendError
                          (''Invalid kind '' @ sq @ Kind zarfYaml @ sq
                             @ '', expected 'ZarfPackageConfig'' @ sq)
                          result)\<lparr>Valid := False\<rparr>
                  else result);
               result2 =
                 (if Metadata_Name (Metadata zarfYaml) = []
                  then (appendError ''Missing package name in metadata'' result1)\<lparr>Valid := False\<rparr>
                  else result1);
               result3 =
                 (if Metadata_Version (Metadata zarfYaml) = []
                  then appendWarning ''No version specified in metadata'' result2
                  else result2);
               result4 =
                 (if Metadata_Description (Metadata zarfYaml) = []
                  then appendWarning ''No description provided in metadata'' result3
                  else result3)
           in Inr (if Metadata_Name (Metadata zarfYaml) \<noteq> []
                   then (if length (Metadata_Name (Metadata zarfYaml)) > 63
                         then (appendError ''Package name must be 63 characters or less''
                                 result4)\<lparr>Valid := False\<rparr>
                         else result4)
                   else result4)))"

subsection \<open>Delegation to the lint tool\<close>

text \<open>
  The two loops over the lines of the lint output: the one run when \<open>zarf dev lint\<close>
  failed and the one run when it succeeded.  \<open>parts[1]\<close> is read only where
  \<open>len(parts) == 2\<close> was tested.
\<close>

definition lintFailed_line :: "string \<Rightarrow> ValidationResult \<Rightarrow> ValidationResult" where
  "lintFailed_line rawLine result =
     (let line = TrimSpace rawLine in
      if line \<noteq> [] \<and> \<not> Contains line ''Using build directory''
      then
        (if Contains line '' ERR ''
         then (let parts = SplitN2 line '' ERR ''
               in if length parts = 2 then appendError (parts ! 1) result
                  else appendError line result)
         else if Contains line '' WRN ''
         then (let parts = SplitN2 line '' WRN ''
               in if length parts = 2 then appendWarning (parts ! 1) result
                  else appendWarning line result)
         else if Contains line ''ERROR'' \<or> Contains line ''error''
                 \<or> Contains line ''FAIL'' \<or> Contains line ''fail''
         then appendError line result
         else result)
      else result)"

definition lintSucceeded_line :: "string \<Rightarrow> ValidationResult \<Rightarrow> ValidationResult" where
  "lintSucceeded_line rawLine result =
     (let line = TrimSpace rawLine in
      if line \<noteq> [] \<and> Contains line '' WRN ''
      then (let parts = SplitN2 line '' WRN ''
            in if length parts = 2 then appendWarning (parts ! 1) result
               else appendWarning line result)
      else result)"

text \<open>
  The part of \<open>validateWithSDK\<close> that runs the tool and reads its output; \<open>Inl\<close> when the
  tool cannot be found or started.
\<close>

definition runZarfLint :: "world \<Rightarrow> string \<Rightarrow> string + ValidationResult" where
  "runZarfLint w packagePath =
     (let result = \<lparr>PackagePath = packagePath, Valid = True, Errors = [], Warnings = []\<rparr> in
      case snd (RunProcessAndCaptureOutput w ''zarf'' [''version'']) of
        Some err \<Rightarrow>
          Inl (''zarf CLI not found - please install Zarf CLI for full validation: '' @ err)
      | None \<Rightarrow>
          (case CreateProcess w ''zarf'' [''dev'', ''lint''] of
             Some err \<Rightarrow> Inl (''failed to create zarf process: '' @ err)
           | None \<Rightarrow>
               (let out = CombinedOutput w ''zarf'' [''dev'', ''lint''] packagePath;
                    outputStr = TrimSpace (fst out)
                in case snd out of
                     Some err \<Rightarrow>
                       (let result1 = result\<lparr>Valid := False\<rparr>
                        in Inr (if outputStr \<noteq> []
                                then fold lintFailed_line (Split outputStr [CHR 0x0A]) result1
                                else result1))
                   | None \<Rightarrow>
                       (let result1 = result\<lparr>Valid := True\<rparr>
                        in Inr (if outputStr \<noteq> []
                                then fold lintSucceeded_line (Split outputStr [CHR 0x0A]) result1
                                else result1)))))"

text \<open>
  A pass whose error is wrapped with a prefix and returned, as in
  \<open>if err != nil { return nil, fmt.Errorf("...: %w", err) }\<close>.
\<close>

definition wrapErr :: "string \<Rightarrow> string + ValidationResult \<Rightarrow> string + ValidationResult" where
  "wrapErr prefix r = (case r of Inl err \<Rightarrow> Inl (prefix @ err) | Inr result \<Rightarrow> Inr result)"

definition validateWithSDK :: "world \<Rightarrow> string \<Rightarrow> string + ValidationResult" where
  "validateWithSDK w packagePath =
     (case runZarfLint w packagePath of
        Inl err \<Rightarrow> Inl err
      | Inr result \<Rightarrow>
     (case wrapErr ''version increment validation failed: ''
             (validateVersionIncrement w packagePath result) of
        Inl err \<Rightarrow> Inl err
      | Inr result \<Rightarrow>
     (case wrapErr ''image pinning validation failed: ''
             (validateImagePinning w packagePath result) of
        Inl err \<Rightarrow> Inl err
      | Inr result \<Rightarrow>
     (case wrapErr ''component validation failed: ''
             (validateComponents w packagePath result) of
        Inl err \<Rightarrow> Inl err
      | Inr result \<Rightarrow>
     (case wrapErr ''component dependency validation failed: ''
             (validateComponentDependencies w packagePath result) of
        Inl err \<Rightarrow> Inl err
      | Inr result \<Rightarrow>
     (case wrapErr ''security validation failed: ''
             (validateSecurityBestPractices w packagePath result) of
        Inl err \<Rightarrow> Inl err
      | Inr result \<Rightarrow>
          wrapErr ''resource validation failed: ''
            (validateResourceConstraints w packagePath result)))))))"

subsection \<open>ValidatePackage\<close>

text \<open>
  \<open>ValidatePackage\<close> returns the result (or an error) and the validator, whose flag
  \<open>UseSDK\<close> it may clear.  When \<open>validateWithSDK\<close> fails, the Go code appends the
  fallback warning to its local object \<open>result\<close> (\<open>result'\<close> below) and then returns
  what \<open>validateBasic\<close> builds, which is a new object; nothing reads the local object
  afterwards.
\<close>

definition ValidatePackage ::
    "world \<Rightarrow> PackageValidator \<Rightarrow> string \<Rightarrow> (string + ValidationResult) \<times> PackageValidator" where
  "ValidatePackage w v packagePath =
     (let result = \<lparr>PackagePath = packagePath, Valid = False, Errors = [], Warnings = []\<rparr> in
      if \<not> IsZarfPackage w packagePath
      then (Inr (appendError ''Directory does not contain a zarf.yaml file'' result), v)
      else if UseSDK v
      then (case validateWithSDK w packagePath of
              Inl err \<Rightarrow>
                (let result' =
                       appendWarning
                         (''Zarf CLI validation failed, falling back to basic validation: ''
                            @ err)
                         result
                 in (validateBasic w packagePath, v\<lparr>UseSDK := False\<rparr>))
            | Inr sdkResult \<Rightarrow> (Inr (appendWarning ''Validated using Zarf CLI'' sdkResult), v))
      else (validateBasic w packagePath, v))"

text \<open>
  The local object \<open>result\<close> of \<open>ValidatePackage\<close> as it stands when the function
  returns: the place where the fallback warning ends up.
\<close>

definition ValidatePackage_local :: "world \<Rightarrow> PackageValidator \<Rightarrow> string \<Rightarrow> ValidationResult" where
  "ValidatePackage_local w v packagePath =
     (let result = \<lparr>PackagePath = packagePath, Valid = False, Errors = [], Warnings = []\<rparr> in
      if \<not> IsZarfPackage w packagePath
      then appendError ''Directory does not contain a zarf.yaml file'' result
      else if UseSDK v
      then (case validateWithSDK w packagePath of
              Inl err \<Rightarrow>
                appendWarning
                  (''Zarf CLI validation failed, falling back to basic validation: '' @ err)
                  result
            | Inr sdkResult \<Rightarrow> result)
      else result)"

text \<open>\<open>ValidatePackages\<close>: the loop stops at the first error.\<close>

fun ValidatePackages_loop ::
    "world \<Rightarrow> PackageValidator \<Rightarrow> string list \<Rightarrow> ValidationResult list
       \<Rightarrow> (string + ValidationResult list) \<times> PackageValidator" where
  "ValidatePackages_loop w v [] results = (Inr results, v)"
| "ValidatePackages_loop w v (path # paths) results =
     (case ValidatePackage w v path of
        (Inl err, v') \<Rightarrow> (Inl (''failed to validate package '' @ path @ '': '' @ err), v')
      | (Inr result, v') \<Rightarrow> ValidatePackages_loop w v' paths (results @ [result]))"

definition ValidatePackages ::
    "world \<Rightarrow> PackageValidator \<Rightarrow> string list
       \<Rightarrow> (string + ValidationResult list) \<times> PackageValidator" where
  "ValidatePackages w v packagePaths = ValidatePackages_loop w v packagePaths []"

section \<open>The package locator\<close>

text \<open>
  The function passed to \<open>filepath.Walk\<close>, run over the calls Walk makes: it returns
  the error it is given, which ends the walk, and records the directory of every file
  named \<open>zarf.yaml\<close>.
\<close>

fun walkFn_calls :: "walk_visit list \<Rightarrow> string list \<Rightarrow> string + string list" where
  "walkFn_calls [] packages = Inr packages"
| "walkFn_calls (visit # visits) packages =
     (case visit_err visit of
        Some err \<Rightarrow> Inl err
      | None \<Rightarrow>
          walkFn_calls visits
            (if visit_name visit = ''zarf.yaml'' \<and> \<not> visit_isDir visit
             then packages @ [filepath_Dir (visit_path visit)]
             else packages))"

definition findPackagesInDirectory :: "world \<Rightarrow> string \<Rightarrow> string + string list" where
  "findPackagesInDirectory w dir =
     (if os_Stat w dir = StatNotExist then Inr []
      else (case walkFn_calls (filepath_Walk w dir) [] of
              Inl err \<Rightarrow> Inl (''error walking directory '' @ dir @ '': '' @ err)
            | Inr packages \<Rightarrow> Inr packages))"

fun FindZarfPackages_loop :: "world \<Rightarrow> string list \<Rightarrow> string list \<Rightarrow> string + string list" where
  "FindZarfPackages_loop w [] packageDirs = Inr packageDirs"
| "FindZarfPackages_loop w (dir # dirs) packageDirs =
     (case findPackagesInDirectory w dir of
        Inl err \<Rightarrow> Inl (''failed to find packages in directory '' @ dir @ '': '' @ err)
      | Inr packages \<Rightarrow> FindZarfPackages_loop w dirs (packageDirs @ packages))"

definition FindZarfPackages :: "world \<Rightarrow> string list \<Rightarrow> string + string list" where
  "FindZarfPackages w dirs = FindZarfPackages_loop w dirs []"

section \<open>Version comparison (package util)\<close>

text \<open>
  \<open>BreakingChangeAllowed\<close> calls the library \<open>github.com/Masterminds/semver\<close>, which
  is not code of the repository.  The functions it calls are the fields of a record
  \<open>semver\<close> that the model takes as a parameter: parsing a version, its major number,
  printing it, parsing a constraint, and \<open>Validate\<close>, which answers whether the version
  satisfies the constraint together with the reasons when it does not.
\<close>

record ('v, 'c) semver =
  NewVersion :: "string \<Rightarrow> string + 'v"
  Major :: "'v \<Rightarrow> int"
  Version_String :: "'v \<Rightarrow> string"
  NewConstraint :: "string \<Rightarrow> string + 'c"
  Validate :: "'c \<Rightarrow> 'v \<Rightarrow> bool \<times> string list"

text \<open>
  A Go error of this function: one made by \<open>fmt.Errorf\<close>, or the \<open>multierror\<close> that
  collects the reasons.
\<close>

datatype go_error = Errorf string | Multierror "string list"

text \<open>The constraint text \<open>fmt.Sprintf("%s %s", constraintOp, leftVersion.String())\<close>.\<close>

definition constraintText :: "('v, 'c) semver \<Rightarrow> 'v \<Rightarrow> string" where
  "constraintText lib leftVersion =
     (let constraintOp = (if Major lib leftVersion = 0 then ''~'' else ''^'')
      in constraintOp @ '' '' @ Version_String lib leftVersion)"

definition BreakingChangeAllowed ::
    "('v, 'c) semver \<Rightarrow> string \<Rightarrow> string \<Rightarrow> bool \<times> go_error option" where
  "BreakingChangeAllowed lib left right =
     (case NewVersion lib left of
        Inl err \<Rightarrow> (False, Some (Errorf (''failed parsing semantic version: '' @ err)))
      | Inr leftVersion \<Rightarrow>
          (case NewVersion lib right of
             Inl err \<Rightarrow> (False, Some (Errorf (''failed parsing semantic version: '' @ err)))
           | Inr rightVersion \<Rightarrow>
               (case NewConstraint lib (constraintText lib leftVersion) of
                  Inl err \<Rightarrow>
                    (False,
                     Some (Errorf (''failed parsing semantic version constraint: '' @ err)))
                | Inr c \<Rightarrow>
                    (let validated = Validate lib c rightVersion;
                         minor = fst validated;
                         reasons = snd validated
                     in (\<not> minor,
                         if length reasons > 0 then Some (Multierror reasons) else None)))))"

text \<open>
  Modelled from the spec: the semver library, whose source is not part of the
  repository.  To run
  \<open>BreakingChangeAllowed\<close> on concrete versions, \<open>simple_semver\<close> is an instance of the
  library for versions of the form \<open>major.minor.patch\<close>, following the words of the
  specification: the caret range anchored at a version holds the versions that are not
  smaller and have the same major number, the tilde range those that are not smaller and
  have the same major and minor numbers.
\<close>

definition digitVal :: "char \<Rightarrow> nat option" where
  "digitVal c =
     map_of [(CHR ''0'', 0), (CHR ''1'', 1), (CHR ''2'', 2), (CHR ''3'', 3), (CHR ''4'', 4),
             (CHR ''5'', 5), (CHR ''6'', 6), (CHR ''7'', 7), (CHR ''8'', 8), (CHR ''9'', 9)] c"

fun parseNat_from :: "nat \<Rightarrow> string \<Rightarrow> nat option" where
  "parseNat_from n [] = Some n"
| "parseNat_from n (c # s) =
     (case digitVal c of None \<Rightarrow> None | Some d \<Rightarrow> parseNat_from (10 * n + d) s)"

definition parseNat :: "string \<Rightarrow> nat option" where
  "parseNat s = (if s = [] then None else parseNat_from 0 s)"

type_synonym simple_version = "nat \<times> nat \<times> nat"

definition simple_NewVersion :: "string \<Rightarrow> string + simple_version" where
  "simple_NewVersion s =
     (case map parseNat (Split s ''.'') of
        [Some major, Some minor, Some patch] \<Rightarrow> Inr (major, minor, patch)
      | _ \<Rightarrow> Inl ''Invalid Semantic Version'')"

definition simple_String :: "simple_version \<Rightarrow> string" where
  "simple_String v =
     (case v of (major, minor, patch) \<Rightarrow>
        showNat major @ ''.'' @ showNat minor @ ''.'' @ showNat patch)"

definition simple_LessThan :: "simple_version \<Rightarrow> simple_version \<Rightarrow> bool" where
  "simple_LessThan v c =
     (case v of (a, b, p) \<Rightarrow> case c of (a', b', p') \<Rightarrow>
        a < a' \<or> (a = a' \<and> (b < b' \<or> (b = b' \<and> p < p'))))"

definition simple_NewConstraint :: "string \<Rightarrow> string + char \<times> simple_version" where
  "simple_NewConstraint s =
     (case s of
        [] \<Rightarrow> Inl ''improper constraint''
      | op # rest \<Rightarrow>
          if op = CHR ''^'' \<or> op = CHR ''~''
          then (case simple_NewVersion (TrimSpace rest) of
                  Inl err \<Rightarrow> Inl (''improper constraint: '' @ s)
                | Inr con \<Rightarrow> Inr (op, con))
          else Inl (''improper constraint: '' @ s))"

definition simple_satisfies :: "char \<times> simple_version \<Rightarrow> simple_version \<Rightarrow> bool" where
  "simple_satisfies c v =
     (case c of (op, con) \<Rightarrow>
        \<not> simple_LessThan v con \<and> fst v = fst con
        \<and> (if op = CHR ''~'' then fst (snd v) = fst (snd con) else True))"

definition simple_Validate :: "char \<times> simple_version \<Rightarrow> simple_version \<Rightarrow> bool \<times> string list" where
  "simple_Validate c v =
     (if simple_satisfies c v then (True, [])
      else (False, [simple_String v @ '' does not satisfy the constraint'']))"

definition simple_semver :: "(simple_version, char \<times> simple_version) semver" where
  "simple_semver =
     \<lparr>NewVersion = simple_NewVersion, Major = (\<lambda>v. int (fst v)),
      Version_String = simple_String, NewConstraint = simple_NewConstraint,
      Validate = simple_Validate\<rparr>"

section \<open>Concrete inputs\<close>

text \<open>
  Inputs on which the functions are run below.  \<open>mkComponent name deps images\<close> is a
  component with the given name, dependencies and images and nothing else;
  \<open>mkManifest version components\<close> is a well-formed manifest of a package \<open>app\<close>, and
  \<open>renderManifest\<close> writes such a manifest as YAML text.

  \<open>one_package_world zarfYaml zarfErr lint previous\<close> is a world with one package
  directory \<open>pkg\<close>: the file \<open>pkg/zarf.yaml\<close> holds the text of \<open>zarfYaml\<close>, and the
  YAML parser reads the text of a manifest back as that manifest; \<open>zarf version\<close>
  answers with the error \<open>zarfErr\<close> (\<open>None\<close> when the tool is installed);
  \<open>zarf dev lint\<close> gives the output and exit error \<open>lint\<close>; \<open>git show\<close> prints the text
  of the manifest \<open>previous\<close> or fails when there is none; \<open>cat\<close> prints the file.
\<close>

definition mkComponent :: "string \<Rightarrow> string list \<Rightarrow> string list \<Rightarrow> ZarfComponent" where
  "mkComponent name deps images =
     \<lparr>Name = name, Default = False, Required = False, DepsWith = deps, Files = [],
      Charts = [], Manifests = [], Images = images, Repos = [], DataInjections = [],
      Scripts = \<lparr>Prepare = [], Before = [], After = []\<rparr>\<rparr>"

definition mkManifest :: "string \<Rightarrow> ZarfComponent list \<Rightarrow> ZarfYaml" where
  "mkManifest version components =
     \<lparr>Kind = ''ZarfPackageConfig'',
      Metadata = \<lparr>Metadata_Name = ''app'', Metadata_Description = ''demo'',
                  Metadata_Version = version\<rparr>,
      Components = components\<rparr>"

definition renderItems :: "string \<Rightarrow> string list \<Rightarrow> string" where
  "renderItems key items =
     (if items = [] then []
      else ''    '' @ key @ '':'' @ [CHR 0x0A]
           @ concat (map (\<lambda>item. ''      - '' @ item @ [CHR 0x0A]) items))"

definition renderComponent :: "ZarfComponent \<Rightarrow> string" where
  "renderComponent component =
     ''  - name: '' @ Name component @ [CHR 0x0A]
     @ renderItems ''depsWith'' (DepsWith component)
     @ renderItems ''images'' (Images component)"

definition renderManifest :: "ZarfYaml \<Rightarrow> string" where
  "renderManifest zarfYaml =
     ''kind: '' @ Kind zarfYaml @ [CHR 0x0A]
     @ ''metadata:'' @ [CHR 0x0A]
     @ ''  name: '' @ Metadata_Name (Metadata zarfYaml) @ [CHR 0x0A]
     @ ''  description: '' @ Metadata_Description (Metadata zarfYaml) @ [CHR 0x0A]
     @ ''  version: '' @ Metadata_Version (Metadata zarfYaml) @ [CHR 0x0A]
     @ ''components:'' @ [CHR 0x0A]
     @ concat (map renderComponent (Components zarfYaml))"

definition one_package_world ::
    "ZarfYaml \<Rightarrow> string option \<Rightarrow> string \<times> string option \<Rightarrow> ZarfYaml option \<Rightarrow> world" where
  "one_package_world zarfYaml zarfErr lint previous =
     \<lparr>os_Stat = (\<lambda>path. if path = ''pkg/zarf.yaml''
                         then StatOK (int (length (renderManifest zarfYaml)))
                         else StatNotExist),
      os_ReadFile = (\<lambda>path. if path = ''pkg/zarf.yaml'' then Inr (renderManifest zarfYaml)
                             else Inl ''no such file or directory''),
      yaml_Unmarshal =
        (\<lambda>bytes. if bytes = renderManifest zarfYaml then Inr zarfYaml
                  else (case previous of
                          None \<Rightarrow> Inl ''cannot unmarshal''
                        | Some p \<Rightarrow> if bytes = renderManifest p then Inr p
                                    else Inl ''cannot unmarshal'')),
      RunProcessAndCaptureOutput =
        (\<lambda>exe args. if exe = ''zarf'' then ([], zarfErr)
                     else if exe = ''git''
                     then (case previous of
                             None \<Rightarrow> ([], Some ''exit status 128'')
                           | Some p \<Rightarrow> (renderManifest p, None))
                     else (renderManifest zarfYaml, None)),
      CreateProcess = (\<lambda>exe args. None),
      CombinedOutput = (\<lambda>exe args dir. lint),
      filepath_Walk = (\<lambda>root. []),
      strings_ToLower = ToLower_ascii\<rparr>"

text \<open>
  A world whose process executor returns the output of a process without the white
  space around it: the file \<open>pkg/zarf.yaml\<close> holds \<open>current\<close>, the previous revision
  holds \<open>previous\<close>, and both texts parse to \<open>zarfYaml\<close>.
\<close>

definition trimming_world :: "string \<Rightarrow> string \<Rightarrow> ZarfYaml \<Rightarrow> world" where
  "trimming_world current previous zarfYaml =
     \<lparr>os_Stat = (\<lambda>path. if path = ''pkg/zarf.yaml'' then StatOK (int (length current))
                         else StatNotExist),
      os_ReadFile = (\<lambda>path. if path = ''pkg/zarf.yaml'' then Inr current
                             else Inl ''no such file or directory''),
      yaml_Unmarshal =
        (\<lambda>bytes. if TrimSpace bytes = TrimSpace current \<or> TrimSpace bytes = TrimSpace previous
                  then Inr zarfYaml
                  else Inl ''cannot unmarshal''),
      RunProcessAndCaptureOutput =
        (\<lambda>exe args. if exe = ''git'' then (TrimSpace previous, None)
                     else if exe = ''cat'' then (TrimSpace current, None)
                     else ([], Some ''executable file not found'')),
      CreateProcess = (\<lambda>exe args. None),
      CombinedOutput = (\<lambda>exe args dir. ([], None)),
      filepath_Walk = (\<lambda>root. []),
      strings_ToLower = ToLower_ascii\<rparr>"

definition newResult :: ValidationResult where
  "newResult = \<lparr>PackagePath = ''pkg'', Valid = True, Errors = [], Warnings = []\<rparr>"

text \<open>
  A world for the locator: the root \<open>charts\<close> holds the package \<open>charts/app\<close>, the root
  \<open>packages\<close> does not exist.
\<close>

definition locator_world :: world where
  "locator_world =
     \<lparr>os_Stat = (\<lambda>path. if path = ''charts'' \<or> path = ''charts/app''
                            \<or> path = ''charts/app/zarf.yaml''
                         then StatOK 4096 else StatNotExist),
      os_ReadFile = (\<lambda>path. Inl ''no such file or directory''),
      yaml_Unmarshal = (\<lambda>bytes. Inl ''cannot unmarshal''),
      RunProcessAndCaptureOutput = (\<lambda>exe args. ([], Some ''executable file not found'')),
      CreateProcess = (\<lambda>exe args. None),
      CombinedOutput = (\<lambda>exe args dir. ([], None)),
      filepath_Walk =
        (\<lambda>root. if root = ''charts''
                 then [\<lparr>visit_path = ''charts'', visit_name = ''charts'', visit_isDir = True,
                        visit_err = None\<rparr>,
                       \<lparr>visit_path = ''charts/app'', visit_name = ''app'', visit_isDir = True,
                        visit_err = None\<rparr>,
                       \<lparr>visit_path = ''charts/app/zarf.yaml'', visit_name = ''zarf.yaml'',
                        visit_isDir = False, visit_err = None\<rparr>]
                 else []),
      strings_ToLower = ToLower_ascii\<rparr>"

section \<open>What the passes record\<close>

text \<open>
  The errors the dependency pass appends for one dependency, for the self-dependencies
  of one component and for one component; the loops of the pass append exactly these,
  in order, and change nothing else of the result.
\<close>

definition depErrors :: "string \<Rightarrow> string \<Rightarrow> (string, ZarfComponent) fmap \<Rightarrow> string list" where
  "depErrors name dep componentMap =
     (if fmlookup componentMap dep = None
      then [''Component '' @ sq @ name @ sq @ '' depends on non-existent component ''
              @ sq @ dep @ sq]
      else [])
     @ (if fst (hasDependencyCycle name dep componentMap {})
        then [''Circular dependency detected between '' @ sq @ name @ sq @ '' and ''
                @ sq @ dep @ sq]
        else [])"

definition selfDepErrors :: "string \<Rightarrow> string list \<Rightarrow> string list" where
  "selfDepErrors name deps =
     map (\<lambda>dep. ''Component '' @ sq @ name @ sq @ '' cannot depend on itself'')
       (filter (\<lambda>dep. dep = name) deps)"

definition componentDepErrors :: "ZarfComponent \<Rightarrow> (string, ZarfComponent) fmap \<Rightarrow> string list" where
  "componentDepErrors component componentMap =
     concat (map (\<lambda>dep. depErrors (Name component) dep componentMap) (DepsWith component))
     @ selfDepErrors (Name component) (DepsWith component)"

text \<open>
  The duplicate-name errors the loop of \<open>validateComponents\<close> appends, given the names
  seen so far.  The loop appends exactly these errors and never clears \<open>Valid\<close>.
\<close>

fun duplicateErrors :: "ZarfComponent list \<Rightarrow> string set \<Rightarrow> string list" where
  "duplicateErrors [] componentNames = []"
| "duplicateErrors (component # components) componentNames =
     (if Name component \<in> componentNames
      then [''Duplicate component name: '' @ Name component] else [])
     @ duplicateErrors components (insert (Name component) componentNames)"

















section \<open>Evaluation rules\<close>

text \<open>The equations that run the definitions above on concrete inputs.\<close>

lemmas strings_eval =
  TrimPrefix_def TrimSpace_def trimStart.simps unicodeSpaces_def isSpace_def Trim_def SplitN2_def Split.simps ToLower_ascii_def
  toLowerChar_def CountByte_def showNat.simps digitChar_def showInt_def quoteCutset_def

lemmas simple_semver_eval =
  simple_semver_def simple_NewVersion_def simple_String_def simple_LessThan_def
  simple_NewConstraint_def simple_satisfies_def simple_Validate_def parseNat_def digitVal_def

lemma filepath_Join_pkg: "filepath_Join ''pkg'' ''zarf.yaml'' = ''pkg/zarf.yaml''"
  by (simp add: filepath_Join_def filepath_Clean_def cleanPush_def Split.simps)

lemma filepath_Dir_app: "filepath_Dir ''charts/app/zarf.yaml'' = ''charts/app''"
  by (simp add: filepath_Dir_def filepath_Clean_def cleanPush_def Split.simps)

lemmas world_eval =
  one_package_world_def renderManifest_def renderComponent_def renderItems_def mkManifest_def
  mkComponent_def newResult_def filepath_Join_pkg ReadZarfYaml_def UnmarshalZarfYaml_def
  IsZarfPackage_def

lemmas validator_eval =
  ValidatePackage_def ValidatePackage_local_def ValidatePackages_def validateWithSDK_def
  runZarfLint_def wrapErr_def validateBasic_def validateVersionIncrement_def
  validateImagePinning_def validateImagePinning_line_def checkImagePinned_def
  validateComponents_def validateComponents_step_def isValidComponentName_def
  validateComponentDependencies_def validateDeps_step_def hasDependencyCycle.simps
  validateSecurityBestPractices_def security_component_def security_file_def
  security_script_def security_image_def isUntrustedRegistry_def containsPotentialSecrets_def
  secretPatterns_def checkManifestSecurity_def validateResourceConstraints_def
  resource_component_def resource_file_def resource_chart_def valuesFileHasLimits_def
  lintFailed_line_def lintSucceeded_line_def appendError_def appendWarning_def
  NewPackageValidator_def

lemma read_one_package_world:
  "ReadZarfYaml (one_package_world zarfYaml zarfErr lint previous)
     (filepath_Join ''pkg'' ''zarf.yaml'') = Inr zarfYaml"
  by (simp add: one_package_world_def ReadZarfYaml_def UnmarshalZarfYaml_def filepath_Join_pkg)

section \<open>Properties of the string functions\<close>
















section \<open>Properties of the cycle detection\<close>

text \<open>The search only ever adds names to \<open>visited\<close>.\<close>

lemma visited_grows:
  "visited \<subseteq> snd (hasDependencyCycle start current componentMap visited)"
  "visited \<subseteq> snd (hasDependencyCycle_deps start deps componentMap visited)"
proof (induction start current componentMap visited and start deps componentMap visited
       rule: hasDependencyCycle_hasDependencyCycle_deps.induct)
  case (1 start current componentMap visited)
  then show ?case
    by (subst hasDependencyCycle.simps) (auto split: option.splits)
next
  case (2 start componentMap visited)
  show ?case by simp
next
  case (3 start dep deps componentMap visited)
  obtain found visited' where
    r: "hasDependencyCycle start dep componentMap visited = (found, visited')"
    by (cases "hasDependencyCycle start dep componentMap visited")
  with 3(1) have sub: "visited \<subseteq> visited'"
    by simp
  show ?case
  proof (cases found)
    case True
    with r sub show ?thesis by simp
  next
    case False
    from 3(2) [OF r [symmetric] refl False]
    have "visited' \<subseteq> snd (hasDependencyCycle_deps start deps componentMap visited')" .
    with r sub False show ?thesis by auto
  qed
qed

lemma deps_reach_start:
  "start \<in> set deps \<Longrightarrow> visited \<noteq> {} \<Longrightarrow>
     fst (hasDependencyCycle_deps start deps componentMap visited)"
proof (induction deps arbitrary: visited)
  case Nil
  then show ?case by simp
next
  case (Cons dep deps)
  obtain found visited' where
    r: "hasDependencyCycle start dep componentMap visited = (found, visited')"
    by (cases "hasDependencyCycle start dep componentMap visited")
  show ?case
  proof (cases found)
    case True
    with r show ?thesis by simp
  next
    case False
    have "dep \<noteq> start"
    proof
      assume "dep = start"
      with Cons.prems(2) have "fst (hasDependencyCycle start dep componentMap visited)"
        by (subst hasDependencyCycle.simps) simp
      with r False show False by simp
    qed
    with Cons.prems(1) have mem: "start \<in> set deps" by auto
    from visited_grows(1) [of visited start dep componentMap] r have "visited \<subseteq> visited'"
      by simp
    with Cons.prems(2) have "visited' \<noteq> {}" by auto
    from Cons.IH [OF mem this] r False show ?thesis by simp
  qed
qed

lemma edge_back_is_cycle:
  "fmlookup componentMap dep = Some component \<Longrightarrow> name \<in> set (DepsWith component) \<Longrightarrow>
     fst (hasDependencyCycle name dep componentMap {})"
  by (subst hasDependencyCycle.simps) (simp add: deps_reach_start)

text \<open>
  When a rank grows along every edge of the component map, no search started below
  its first node finds a way back.
\<close>

lemma ranked_no_cycle:
  fixes rank :: "string \<Rightarrow> nat"
  shows "\<forall>name component dep. fmlookup componentMap name = Some component
             \<longrightarrow> dep \<in> set (DepsWith component) \<longrightarrow> rank name < rank dep \<Longrightarrow>
         rank start < rank current \<Longrightarrow>
           \<not> fst (hasDependencyCycle start current componentMap visited)"
    and "\<forall>name component dep. fmlookup componentMap name = Some component
             \<longrightarrow> dep \<in> set (DepsWith component) \<longrightarrow> rank name < rank dep \<Longrightarrow>
         \<forall>dep \<in> set deps. rank start < rank dep \<Longrightarrow>
           \<not> fst (hasDependencyCycle_deps start deps componentMap visited)"
proof (induction start current componentMap visited and start deps componentMap visited
       rule: hasDependencyCycle_hasDependencyCycle_deps.induct)
  case (1 start current componentMap visited)
  from "1.prems" have ne: "current \<noteq> start" by auto
  show ?case
  proof (cases "current \<in> visited")
    case True
    with ne show ?thesis by (simp add: hasDependencyCycle.simps)
  next
    case False
    show ?thesis
    proof (cases "fmlookup componentMap current")
      case None
      with ne False show ?thesis by (simp add: hasDependencyCycle.simps)
    next
      case (Some component)
      from ne have c: "\<not> (current = start \<and> visited \<noteq> {})" by simp
      have "\<forall>dep \<in> set (DepsWith component). rank start < rank dep"
      proof
        fix dep assume "dep \<in> set (DepsWith component)"
        with Some "1.prems"(1) have "rank current < rank dep" by blast
        with "1.prems"(2) show "rank start < rank dep" by simp
      qed
      with "1.IH" [OF c False Some "1.prems"(1)]
      have "\<not> fst (hasDependencyCycle_deps start (DepsWith component) componentMap
                     (insert current visited))" .
      with ne False Some show ?thesis by (simp add: hasDependencyCycle.simps)
    qed
  qed
next
  case (2 start componentMap visited)
  show ?case by simp
next
  case (3 start dep deps componentMap visited)
  obtain found visited' where
    r: "hasDependencyCycle start dep componentMap visited = (found, visited')"
    by (cases "hasDependencyCycle start dep componentMap visited")
  from "3.prems"(2) have "rank start < rank dep" by simp
  with "3.IH"(1) [OF "3.prems"(1)]
  have "\<not> fst (hasDependencyCycle start dep componentMap visited)" .
  with r have nf: "\<not> found" by simp
  from "3.prems"(2) have "\<forall>dep \<in> set deps. rank start < rank dep" by simp
  with "3.IH"(2) [OF refl r [symmetric] nf "3.prems"(1)]
  have "\<not> fst (hasDependencyCycle_deps start deps componentMap visited')" by simp
  with r nf show ?case by simp
qed

section \<open>Properties of the passes\<close>

lemma validateDeps_step_eq:
  "validateDeps_step name dep componentMap result
     = result\<lparr>Errors := Errors result @ depErrors name dep componentMap\<rparr>"
  by (simp add: validateDeps_step_def depErrors_def appendError_def)

lemma validateDeps_loop_eq:
  "validateDeps_loop name deps componentMap result
     = result\<lparr>Errors := Errors result
                   @ concat (map (\<lambda>dep. depErrors name dep componentMap) deps)\<rparr>"
  by (induction deps arbitrary: result) (simp_all add: validateDeps_step_eq)

lemma validateSelfDeps_loop_eq:
  "validateSelfDeps_loop name deps result
     = result\<lparr>Errors := Errors result @ selfDepErrors name deps\<rparr>"
  by (induction deps arbitrary: result) (simp_all add: selfDepErrors_def appendError_def)

lemma validateComponentDependencies_loop_eq:
  "validateComponentDependencies_loop components componentMap result
     = result\<lparr>Errors := Errors result
                   @ concat (map (\<lambda>component. componentDepErrors component componentMap)
                               components)\<rparr>"
  by (induction components arbitrary: result)
     (simp_all add: validateDeps_loop_eq validateSelfDeps_loop_eq componentDepErrors_def)

lemma buildComponentMap_other:
  "name \<notin> Name ` set components \<Longrightarrow>
     fmlookup (buildComponentMap components componentMap) name = fmlookup componentMap name"
  by (induction components arbitrary: componentMap) auto

lemma buildComponentMap_distinct_from:
  "distinct (map Name components) \<Longrightarrow> component \<in> set components \<Longrightarrow>
     fmlookup (buildComponentMap components componentMap) (Name component) = Some component"
proof (induction components arbitrary: componentMap)
  case Nil
  then show ?case by simp
next
  case (Cons c cs)
  show ?case
  proof (cases "component = c")
    case True
    from Cons.prems(1) have "Name c \<notin> Name ` set cs" by simp
    with True show ?thesis by (simp add: buildComponentMap_other)
  next
    case False
    with Cons.prems have "distinct (map Name cs)" and "component \<in> set cs" by auto
    from Cons.IH [OF this] show ?thesis by simp
  qed
qed

lemma buildComponentMap_distinct:
  "distinct (map Name components) \<Longrightarrow> component \<in> set components \<Longrightarrow>
     fmlookup (buildComponentMap components fmempty) (Name component) = Some component"
  by (rule buildComponentMap_distinct_from)

lemma componentDepErrors_cycle:
  assumes "dep \<in> set (DepsWith component)"
    and "fmlookup componentMap dep = Some target"
    and "Name component \<in> set (DepsWith target)"
  shows "''Circular dependency detected between '' @ sq @ Name component @ sq @ '' and ''
           @ sq @ dep @ sq \<in> set (componentDepErrors component componentMap)"
proof -
  from assms(2,3) have "fst (hasDependencyCycle (Name component) dep componentMap {})"
    by (rule edge_back_is_cycle)
  then have "''Circular dependency detected between '' @ sq @ Name component @ sq @ '' and ''
               @ sq @ dep @ sq \<in> set (depErrors (Name component) dep componentMap)"
    by (simp add: depErrors_def)
  with assms(1) show ?thesis
    by (auto simp: componentDepErrors_def)
qed

lemma componentDepErrors_self:
  assumes "Name component \<in> set (DepsWith component)"
  shows "''Component '' @ sq @ Name component @ sq @ '' cannot depend on itself''
           \<in> set (componentDepErrors component componentMap)"
  using assms by (auto simp: componentDepErrors_def selfDepErrors_def)

lemma validateComponentDependencies_eq:
  assumes "ReadZarfYaml w (filepath_Join packagePath ''zarf.yaml'') = Inr zarfYaml"
  shows "validateComponentDependencies w packagePath result
           = Inr (result\<lparr>Errors := Errors result
                    @ concat (map (\<lambda>component. componentDepErrors component
                                     (buildComponentMap (Components zarfYaml) fmempty))
                                (Components zarfYaml))\<rparr>)"
  using assms
  by (simp add: validateComponentDependencies_def validateComponentDependencies_loop_eq)

lemma validateComponents_step_fields:
  "Errors (validateComponents_step w component componentNames result)
     = Errors result
       @ (if Name component \<in> componentNames
          then [''Duplicate component name: '' @ Name component] else [])"
  "Valid (validateComponents_step w component componentNames result) = Valid result"
  "PackagePath (validateComponents_step w component componentNames result) = PackagePath result"
  by (simp_all add: validateComponents_step_def appendError_def appendWarning_def Let_def)

lemma validateComponents_loop_fields:
  "Errors (validateComponents_loop w components componentNames result)
     = Errors result @ duplicateErrors components componentNames"
  "Valid (validateComponents_loop w components componentNames result) = Valid result"
  "PackagePath (validateComponents_loop w components componentNames result) = PackagePath result"
  by (induction components arbitrary: componentNames result)
     (simp_all add: validateComponents_step_fields)

lemma count_duplicateErrors:
  "count_list (duplicateErrors components componentNames) (''Duplicate component name: '' @ name)
     = (if name \<in> componentNames then count_list (map Name components) name
        else count_list (map Name components) name - 1)"
  by (induction components arbitrary: componentNames) auto





lemma findPackagesInDirectory_missing:
  "os_Stat w dir = StatNotExist \<Longrightarrow> findPackagesInDirectory w dir = Inr []"
  by (simp add: findPackagesInDirectory_def)

lemma FindZarfPackages_loop_missing:
  "os_Stat w dir = StatNotExist \<Longrightarrow>
     FindZarfPackages_loop w (before @ dir # after) packageDirs
       = FindZarfPackages_loop w (before @ after) packageDirs"
  by (induction before arbitrary: packageDirs)
     (simp_all add: findPackagesInDirectory_missing split: sum.splits)

lemma buildComponentMap_declared:
  "fmlookup (buildComponentMap components componentMap) name = Some component \<Longrightarrow>
     (component \<in> set components \<and> Name component = name)
     \<or> fmlookup componentMap name = Some component"
proof (induction components arbitrary: componentMap)
  case Nil
  then show ?case by simp
next
  case (Cons c cs)
  from Cons.prems
  have "fmlookup (buildComponentMap cs (fmupd (Name c) c componentMap)) name = Some component"
    by simp
  from Cons.IH [OF this] show ?case
    by (auto split: if_splits)
qed

lemma buildComponentMap_defined:
  "name \<in> Name ` set components \<Longrightarrow>
     fmlookup (buildComponentMap components componentMap) name \<noteq> None"
proof (induction components arbitrary: componentMap)
  case Nil
  then show ?case by simp
next
  case (Cons c cs)
  show ?case
  proof (cases "name \<in> Name ` set cs")
    case True
    then show ?thesis by (simp add: Cons.IH)
  next
    case False
    with Cons.prems have "name = Name c" by auto
    with False show ?thesis by (simp add: buildComponentMap_other)
  qed
qed

lemma ranked_components_no_errors:
  fixes rank :: "string \<Rightarrow> nat"
  assumes declared: "\<forall>component \<in> set components. \<forall>dep \<in> set (DepsWith component).
                       dep \<in> Name ` set components \<and> rank (Name component) < rank dep"
  shows "concat (map (\<lambda>component.
                        componentDepErrors component (buildComponentMap components fmempty))
                   components) = []"
proof -
  let ?m = "buildComponentMap components fmempty"
  have r: "\<forall>name component dep. fmlookup ?m name = Some component
             \<longrightarrow> dep \<in> set (DepsWith component) \<longrightarrow> rank name < rank dep"
  proof (intro allI impI)
    fix name component dep
    assume "fmlookup ?m name = Some component" and d: "dep \<in> set (DepsWith component)"
    then have "component \<in> set components \<and> Name component = name"
      by (auto dest: buildComponentMap_declared)
    with declared d show "rank name < rank dep" by auto
  qed
  have "componentDepErrors component ?m = []" if c: "component \<in> set components" for component
  proof -
    have "depErrors (Name component) dep ?m = []" if d: "dep \<in> set (DepsWith component)" for dep
    proof -
      from declared c d have 1: "dep \<in> Name ` set components"
        and 2: "rank (Name component) < rank dep" by auto
      from 1 have "fmlookup ?m dep \<noteq> None" by (rule buildComponentMap_defined)
      moreover from r 2 have "\<not> fst (hasDependencyCycle (Name component) dep ?m {})"
        by (rule ranked_no_cycle(1))
      ultimately show ?thesis by (simp add: depErrors_def)
    qed
    moreover have "selfDepErrors (Name component) (DepsWith component) = []"
      using declared c by (auto simp: selfDepErrors_def filter_empty_conv)
    ultimately show ?thesis by (simp add: componentDepErrors_def)
  qed
  then show ?thesis by simp
qed

lemma diamond_no_errors:
  assumes "distinct [a, b, c, d]"
    and "(\<lambda>component. (Name component, set (DepsWith component))) ` set components
           = {(a, {b, c}), (b, {d}), (c, {d}), (d, {})}"
  shows "concat (map (\<lambda>component.
                        componentDepErrors component (buildComponentMap components fmempty))
                   components) = []"
proof (rule ranked_components_no_errors
         [where rank = "\<lambda>name. if name = a then 0 else if name = d then 2 else 1"],
       intro ballI)
  fix component dep
  assume c: "component \<in> set components" and dep: "dep \<in> set (DepsWith component)"
  from assms(2)
  have "fst ` (\<lambda>component. (Name component, set (DepsWith component))) ` set components
          = fst ` {(a, {b, c}), (b, {d}), (c, {d}), (d, {})}"
    by (rule arg_cong)
  then have names: "Name ` set components = {a, b, c, d}"
    by (simp add: image_image)
  from c have "(Name component, set (DepsWith component))
                 \<in> (\<lambda>component. (Name component, set (DepsWith component))) ` set components"
    by (rule imageI)
  with assms(2) have "(Name component, set (DepsWith component))
                        \<in> {(a, {b, c}), (b, {d}), (c, {d}), (d, {})}" by simp
  then consider "Name component = a" "set (DepsWith component) = {b, c}"
    | "Name component = b" "set (DepsWith component) = {d}"
    | "Name component = c" "set (DepsWith component) = {d}"
    | "Name component = d" "set (DepsWith component) = {}"
    by auto
  then show "dep \<in> Name ` set components
        \<and> (if Name component = a then 0 else if Name component = d then 2 else 1)
            < (if dep = a then 0 else if dep = d then 2 else (1::nat))"
    using dep assms(1) by cases (auto simp: names)
qed

subsection \<open>Texts with an images list or inline image fields\<close>





















section \<open>The validity flag\<close>

text \<open>
  Claim C1 says that \<open>Valid\<close> is true exactly when \<open>Errors\<close> is empty.  The code does
  not keep the two in step.  First package: the lint tool is installed and passes, the
  manifest declares two components named \<open>api\<close>; \<open>validateComponents\<close> appends the
  duplicate-name error and leaves \<open>Valid\<close> true (as \<open>validateComponentDependencies\<close>
  does with its errors, whereas \<open>validateVersionIncrement\<close> and \<open>validateBasic\<close> clear
  \<open>Valid\<close> with every error they append).  Second package: the lint tool exits with a
  failure and prints a line that no rule of the parser matches; \<open>Valid\<close> is false and
  \<open>Errors\<close> is empty.
\<close>

theorem validity_out_of_step_with_errors:
  "ValidatePackage
     (one_package_world
        (mkManifest ''1.0.0'' [mkComponent ''api'' [] [], mkComponent ''api'' [] []])
        None ([], None) None)
     NewPackageValidator ''pkg''
     = (Inr \<lparr>PackagePath = ''pkg'', Valid = True,
              Errors = [''Duplicate component name: api''],
              Warnings =
                [''Could not retrieve previous package version for comparison'',
                 ''Component 'api' appears to be empty (no files, charts, manifests, images, etc.)'',
                 ''Component 'api' appears to be empty (no files, charts, manifests, images, etc.)'',
                 ''Validated using Zarf CLI'']\<rparr>,
        NewPackageValidator)
   \<and> ValidatePackage
       (one_package_world (mkManifest ''1.0.0'' [mkComponent ''api'' [] []])
          None (''lint aborted'', Some ''exit status 1'') None)
       NewPackageValidator ''pkg''
       = (Inr \<lparr>PackagePath = ''pkg'', Valid = False, Errors = [],
                Warnings =
                  [''Could not retrieve previous package version for comparison'',
                   ''Component 'api' appears to be empty (no files, charts, manifests, images, etc.)'',
                   ''Validated using Zarf CLI'']\<rparr>,
          NewPackageValidator)"
  by (simp add: validator_eval world_eval strings_eval)

text \<open>
  Claim C2 says that for a component \<open>web\<close> that depends on \<open>web\<close> the self-dependency
  error is recorded and \<open>HasValidationErrors\<close> is true for the batch.  With the lint tool
  installed and passing, the error is recorded (after the circular-dependency error),
  \<open>Valid\<close> stays true, and \<open>HasValidationErrors\<close>, which reads \<open>Valid\<close> only, is false.
\<close>

theorem self_dependency_batch_has_no_validation_errors:
  "ValidatePackages
     (one_package_world (mkManifest ''1.0.0'' [mkComponent ''web'' [''web''] []])
        None ([], None) None)
     NewPackageValidator [''pkg'']
     = (Inr [\<lparr>PackagePath = ''pkg'', Valid = True,
               Errors = [''Circular dependency detected between 'web' and 'web'' @ sq,
                         ''Component 'web' cannot depend on itself''],
               Warnings =
                 [''Could not retrieve previous package version for comparison'',
                  ''Component 'web' appears to be empty (no files, charts, manifests, images, etc.)'',
                  ''Validated using Zarf CLI'']\<rparr>],
        NewPackageValidator)
   \<and> HasValidationErrors
       [\<lparr>PackagePath = ''pkg'', Valid = True,
         Errors = [''Circular dependency detected between 'web' and 'web'' @ sq,
                   ''Component 'web' cannot depend on itself''],
         Warnings =
           [''Could not retrieve previous package version for comparison'',
            ''Component 'web' appears to be empty (no files, charts, manifests, images, etc.)'',
            ''Validated using Zarf CLI'']\<rparr>]
       = False"
  by (simp add: validator_eval world_eval strings_eval)

section \<open>Version comparison: the polarity of BreakingChangeAllowed\<close>

text \<open>
  Claim C3, as amended.  For versions \<open>previous\<close> and \<open>nxt\<close> that both parse, the
  constraint is the tilde range of \<open>previous\<close> when its major number is 0 and the caret
  range otherwise; when the constraint does not parse, \<open>BreakingChangeAllowed\<close> returns
  false with an error; when it parses, \<open>BreakingChangeAllowed\<close> returns true exactly
  when \<open>nxt\<close> does NOT satisfy the constraint, that is exactly when the change is
  breaking.
\<close>

theorem BreakingChangeAllowed_true_iff_outside_range:
  assumes "NewVersion lib previous = Inr pv" and "NewVersion lib nxt = Inr nv"
  shows "constraintText lib pv
           = (if Major lib pv = 0 then ''~'' else ''^'') @ '' '' @ Version_String lib pv
         \<and> (case NewConstraint lib (constraintText lib pv) of
               Inl err \<Rightarrow>
                 BreakingChangeAllowed lib previous nxt
                   = (False,
                      Some (Errorf (''failed parsing semantic version constraint: '' @ err)))
             | Inr c \<Rightarrow>
                 fst (BreakingChangeAllowed lib previous nxt) = (\<not> fst (Validate lib c nv)))"
proof
  show "constraintText lib pv
          = (if Major lib pv = 0 then ''~'' else ''^'') @ '' '' @ Version_String lib pv"
    by (simp add: constraintText_def)
next
  show "case NewConstraint lib (constraintText lib pv) of
          Inl err \<Rightarrow>
            BreakingChangeAllowed lib previous nxt
              = (False, Some (Errorf (''failed parsing semantic version constraint: '' @ err)))
        | Inr c \<Rightarrow>
            fst (BreakingChangeAllowed lib previous nxt) = (\<not> fst (Validate lib c nv))"
    using assms
    by (cases "NewConstraint lib (constraintText lib pv)")
       (simp_all add: BreakingChangeAllowed_def Let_def)
qed

theorem BreakingChangeAllowed_true_iff_outside_range_witness:
  "NewVersion simple_semver ''1.2.3'' = Inr (1, 2, 3)
   \<and> NewVersion simple_semver ''2.0.0'' = Inr (2, 0, 0)
   \<and> NewConstraint simple_semver ''^ 1.2.3'' = Inr (CHR ''^'', (1, 2, 3))
   \<and> fst (Validate simple_semver (CHR ''^'', (1, 2, 3)) (2, 0, 0)) = False
   \<and> fst (BreakingChangeAllowed simple_semver ''1.2.3'' ''2.0.0'') = True"
proof -
  have p: "NewVersion simple_semver ''1.2.3'' = Inr (1, 2, 3)"
    by (simp add: simple_semver_eval strings_eval)
  have n: "NewVersion simple_semver ''2.0.0'' = Inr (2, 0, 0)"
    by (simp add: simple_semver_eval strings_eval)
  have c: "NewConstraint simple_semver ''^ 1.2.3'' = Inr (CHR ''^'', (1, 2, 3))"
    by (simp add: simple_semver_eval strings_eval)
  have v: "fst (Validate simple_semver (CHR ''^'', (1, 2, 3)) (2, 0, 0)) = False"
    by (simp add: simple_semver_eval)
  have t: "constraintText simple_semver (1, 2, 3) = ''^ 1.2.3''"
    by (simp add: constraintText_def simple_semver_eval strings_eval)
  from BreakingChangeAllowed_true_iff_outside_range [OF p n]
  have "case NewConstraint simple_semver (constraintText simple_semver (1, 2, 3)) of
          Inl err \<Rightarrow>
            BreakingChangeAllowed simple_semver ''1.2.3'' ''2.0.0''
              = (False, Some (Errorf (''failed parsing semantic version constraint: '' @ err)))
        | Inr c \<Rightarrow>
            fst (BreakingChangeAllowed simple_semver ''1.2.3'' ''2.0.0'')
              = (\<not> fst (Validate simple_semver c (2, 0, 0)))"
    by (rule conjunct2)
  then have "fst (BreakingChangeAllowed simple_semver ''1.2.3'' ''2.0.0'')
               = (\<not> fst (Validate simple_semver (CHR ''^'', (1, 2, 3)) (2, 0, 0)))"
    by (simp only: t c sum.case)
  with v have "fst (BreakingChangeAllowed simple_semver ''1.2.3'' ''2.0.0'') = True"
    by (simp only: not_False_eq_True)
  with p n c v show ?thesis
    by (intro conjI)
qed

text \<open>
  Claim C3 as stated fails: \<open>1.1.0\<close> satisfies the caret range anchored at \<open>1.0.0\<close>
  (the change is not breaking), and \<open>BreakingChangeAllowed\<close> returns false, not true.
\<close>

theorem BreakingChangeAllowed_counterexample:
  "NewVersion simple_semver ''1.0.0'' = Inr (1, 0, 0)
   \<and> NewVersion simple_semver ''1.1.0'' = Inr (1, 1, 0)
   \<and> NewConstraint simple_semver (constraintText simple_semver (1, 0, 0))
       = Inr (CHR ''^'', (1, 0, 0))
   \<and> fst (Validate simple_semver (CHR ''^'', (1, 0, 0)) (1, 1, 0)) = True
   \<and> BreakingChangeAllowed simple_semver ''1.0.0'' ''1.1.0'' = (False, None)"
  by (simp add: BreakingChangeAllowed_def constraintText_def simple_semver_eval strings_eval)

section \<open>The fallback validation\<close>

text \<open>
  Claim C4 says that the result of the fallback holds a warning that the fallback was
  taken.  The package has a well-formed manifest and the \<open>zarf\<close> executable is missing.
  \<open>ValidatePackage\<close> returns no error, clears \<open>UseSDK\<close> and returns the result of
  \<open>validateBasic\<close>, whose warnings are empty: the warning was appended to the local
  object of \<open>ValidatePackage\<close>, which is not the object returned.
\<close>

theorem fallback_warning_is_lost:
  "ValidatePackage
     (one_package_world (mkManifest ''1.0.0'' [mkComponent ''web'' [] []])
        (Some ''executable file not found in $PATH'') ([], None) None)
     NewPackageValidator ''pkg''
     = (Inr \<lparr>PackagePath = ''pkg'', Valid = True, Errors = [], Warnings = []\<rparr>,
        \<lparr>UseSDK = False\<rparr>)
   \<and> Warnings
       (ValidatePackage_local
          (one_package_world (mkManifest ''1.0.0'' [mkComponent ''web'' [] []])
             (Some ''executable file not found in $PATH'') ([], None) None)
          NewPackageValidator ''pkg'')
       = [''Zarf CLI validation failed, falling back to basic validation: ''
            @ ''zarf CLI not found - please install Zarf CLI for full validation: ''
            @ ''executable file not found in $PATH'']"
  by (simp add: validator_eval world_eval strings_eval)

section \<open>The version-increment pass\<close>

text \<open>
  Claim C5, with the comparison the pass makes.  Let the current manifest be readable.
  (1) When \<open>git show\<close> fails, the pass appends the warning "Could not retrieve
  previous package version for comparison" and nothing else: no error, \<open>Valid\<close> as it
  was.
  (2) When the previous manifest is retrieved and parses, the two versions are equal and
  the output captured from \<open>cat\<close> of the current manifest differs from the output
  captured from \<open>git show\<close>, the pass appends the error "Package content changed but
  version not incremented (still VERSION)" and clears \<open>Valid\<close>.
  (3) When the previous manifest is retrieved and parses and the two versions differ,
  the pass leaves the result as it was, whatever else differs.
  (4) When the previous manifest is retrieved and parses, the two versions are equal and
  the two captured outputs are equal, the pass leaves the result as it was, whatever
  the file holds.
\<close>

theorem version_increment_pass:
  assumes "ReadZarfYaml w (filepath_Join packagePath ''zarf.yaml'') = Inr currentContent"
  shows "(RunProcessAndCaptureOutput w ''git''
            [''show'', ''HEAD~1:'' @ filepath_Join packagePath ''zarf.yaml'']
            = (output, Some gitErr)
          \<longrightarrow> validateVersionIncrement w packagePath result
                = Inr (result\<lparr>Warnings := Warnings result
                         @ [''Could not retrieve previous package version for comparison'']\<rparr>))
         \<and> (RunProcessAndCaptureOutput w ''git''
               [''show'', ''HEAD~1:'' @ filepath_Join packagePath ''zarf.yaml'']
               = (previousContent, None)
             \<and> UnmarshalZarfYaml w previousContent = Inr previousZarf
             \<and> Metadata_Version (Metadata currentContent)
                 = Metadata_Version (Metadata previousZarf)
             \<and> fst (RunProcessAndCaptureOutput w ''cat''
                      [filepath_Join packagePath ''zarf.yaml'']) \<noteq> previousContent
             \<longrightarrow> validateVersionIncrement w packagePath result
                   = Inr (result\<lparr>Errors := Errors result
                            @ [''Package content changed but version not incremented (still ''
                                 @ Metadata_Version (Metadata currentContent) @ '')''],
                          Valid := False\<rparr>))
         \<and> (RunProcessAndCaptureOutput w ''git''
               [''show'', ''HEAD~1:'' @ filepath_Join packagePath ''zarf.yaml'']
               = (previousContent, None)
             \<and> UnmarshalZarfYaml w previousContent = Inr previousZarf
             \<and> Metadata_Version (Metadata currentContent)
                 \<noteq> Metadata_Version (Metadata previousZarf)
             \<longrightarrow> validateVersionIncrement w packagePath result = Inr result)
         \<and> (RunProcessAndCaptureOutput w ''git''
               [''show'', ''HEAD~1:'' @ filepath_Join packagePath ''zarf.yaml'']
               = (previousContent, None)
             \<and> UnmarshalZarfYaml w previousContent = Inr previousZarf
             \<and> Metadata_Version (Metadata currentContent)
                 = Metadata_Version (Metadata previousZarf)
             \<and> fst (RunProcessAndCaptureOutput w ''cat''
                      [filepath_Join packagePath ''zarf.yaml'']) = previousContent
             \<longrightarrow> validateVersionIncrement w packagePath result = Inr result)"
  using assms
  by (simp add: validateVersionIncrement_def appendWarning_def appendError_def Let_def)

theorem version_increment_pass_witness:
  "validateVersionIncrement
     (one_package_world (mkManifest ''1.0.0'' [mkComponent ''web'' [] []]) None ([], None) None)
     ''pkg'' newResult
     = Inr (newResult\<lparr>Warnings := Warnings newResult
              @ [''Could not retrieve previous package version for comparison'']\<rparr>)
   \<and> validateVersionIncrement
       (one_package_world (mkManifest ''1.0.0'' [mkComponent ''web'' [] []]) None ([], None)
          (Some (mkManifest ''1.0.0'' [mkComponent ''db'' [] []])))
       ''pkg'' newResult
       = Inr (newResult\<lparr>Errors := Errors newResult
                @ [''Package content changed but version not incremented (still 1.0.0)''],
              Valid := False\<rparr>)
   \<and> validateVersionIncrement
       (one_package_world (mkManifest ''1.1.0'' [mkComponent ''web'' [] []]) None ([], None)
          (Some (mkManifest ''1.0.0'' [mkComponent ''db'' [] []])))
       ''pkg'' newResult
       = Inr newResult
   \<and> validateVersionIncrement
       (one_package_world (mkManifest ''1.0.0'' [mkComponent ''web'' [] []]) None ([], None)
          (Some (mkManifest ''1.0.0'' [mkComponent ''web'' [] []])))
       ''pkg'' newResult
       = Inr newResult"
proof (intro conjI)
  let ?cur = "mkManifest ''1.0.0'' [mkComponent ''web'' [] []]"
  let ?w = "one_package_world ?cur None ([], None) None"
  have g: "RunProcessAndCaptureOutput ?w ''git''
             [''show'', ''HEAD~1:'' @ filepath_Join ''pkg'' ''zarf.yaml'']
             = ([], Some ''exit status 128'')"
    by (simp add: one_package_world_def)
  from version_increment_pass
         [OF read_one_package_world [of ?cur None "([], None)" None],
          where result = newResult, THEN conjunct1, THEN mp, OF g]
  show "validateVersionIncrement ?w ''pkg'' newResult
          = Inr (newResult\<lparr>Warnings := Warnings newResult
                   @ [''Could not retrieve previous package version for comparison'']\<rparr>)" .
next
  let ?cur = "mkManifest ''1.0.0'' [mkComponent ''web'' [] []]"
  let ?prev = "mkManifest ''1.0.0'' [mkComponent ''db'' [] []]"
  let ?w = "one_package_world ?cur None ([], None) (Some ?prev)"
  have h: "RunProcessAndCaptureOutput ?w ''git''
             [''show'', ''HEAD~1:'' @ filepath_Join ''pkg'' ''zarf.yaml'']
             = (renderManifest ?prev, None)
           \<and> UnmarshalZarfYaml ?w (renderManifest ?prev) = Inr ?prev
           \<and> Metadata_Version (Metadata ?cur) = Metadata_Version (Metadata ?prev)
           \<and> fst (RunProcessAndCaptureOutput ?w ''cat'' [filepath_Join ''pkg'' ''zarf.yaml''])
               \<noteq> renderManifest ?prev"
    by (simp add: world_eval)
  from version_increment_pass
         [OF read_one_package_world [of ?cur None "([], None)" "Some ?prev"],
          where result = newResult, THEN conjunct2, THEN conjunct1, THEN mp, OF h]
  show "validateVersionIncrement ?w ''pkg'' newResult
          = Inr (newResult\<lparr>Errors := Errors newResult
                   @ [''Package content changed but version not incremented (still 1.0.0)''],
                 Valid := False\<rparr>)"
    by (simp add: mkManifest_def)
next
  let ?cur = "mkManifest ''1.1.0'' [mkComponent ''web'' [] []]"
  let ?prev = "mkManifest ''1.0.0'' [mkComponent ''db'' [] []]"
  let ?w = "one_package_world ?cur None ([], None) (Some ?prev)"
  have h: "RunProcessAndCaptureOutput ?w ''git''
             [''show'', ''HEAD~1:'' @ filepath_Join ''pkg'' ''zarf.yaml'']
             = (renderManifest ?prev, None)
           \<and> UnmarshalZarfYaml ?w (renderManifest ?prev) = Inr ?prev
           \<and> Metadata_Version (Metadata ?cur) \<noteq> Metadata_Version (Metadata ?prev)"
    by (simp add: world_eval)
  from version_increment_pass
         [OF read_one_package_world [of ?cur None "([], None)" "Some ?prev"],
          where result = newResult, THEN conjunct2, THEN conjunct2, THEN conjunct1, THEN mp, OF h]
  show "validateVersionIncrement ?w ''pkg'' newResult = Inr newResult" .
next
  let ?cur = "mkManifest ''1.0.0'' [mkComponent ''web'' [] []]"
  let ?w = "one_package_world ?cur None ([], None) (Some ?cur)"
  have h: "RunProcessAndCaptureOutput ?w ''git''
             [''show'', ''HEAD~1:'' @ filepath_Join ''pkg'' ''zarf.yaml'']
             = (renderManifest ?cur, None)
           \<and> UnmarshalZarfYaml ?w (renderManifest ?cur) = Inr ?cur
           \<and> Metadata_Version (Metadata ?cur) = Metadata_Version (Metadata ?cur)
           \<and> fst (RunProcessAndCaptureOutput ?w ''cat'' [filepath_Join ''pkg'' ''zarf.yaml''])
               = renderManifest ?cur"
    by (simp add: world_eval)
  from version_increment_pass
         [OF read_one_package_world [of ?cur None "([], None)" "Some ?cur"],
          where result = newResult, THEN conjunct2, THEN conjunct2, THEN conjunct2, THEN mp, OF h]
  show "validateVersionIncrement ?w ''pkg'' newResult = Inr newResult" .
qed

text \<open>
  Claim C5 as stated fails when the process executor does not return the text of the
  files as it is.  The pass never reads the two manifests as files to compare them: it
  compares what the
  process executor captured from \<open>cat\<close> of the current manifest with what it captured
  from \<open>git show\<close> of the previous one.  In \<open>trimming_world\<close> the current file is the
  previous text followed by two line feeds, so the content of the file differs from the
  previous content, both byte for byte and from the text that \<open>git show\<close> gave, under
  the unchanged version 1.0.0; the two captured outputs are equal, and the pass
  records nothing.
\<close>

theorem version_increment_counterexample:
  "os_ReadFile
     (trimming_world
        (renderManifest (mkManifest ''1.0.0'' [mkComponent ''web'' [] []]) @ [CHR 0x0A, CHR 0x0A])
        (renderManifest (mkManifest ''1.0.0'' [mkComponent ''web'' [] []]))
        (mkManifest ''1.0.0'' [mkComponent ''web'' [] []]))
     (filepath_Join ''pkg'' ''zarf.yaml'')
     = Inr (renderManifest (mkManifest ''1.0.0'' [mkComponent ''web'' [] []])
              @ [CHR 0x0A, CHR 0x0A])
   \<and> renderManifest (mkManifest ''1.0.0'' [mkComponent ''web'' [] []]) @ [CHR 0x0A, CHR 0x0A]
       \<noteq> renderManifest (mkManifest ''1.0.0'' [mkComponent ''web'' [] []])
   \<and> renderManifest (mkManifest ''1.0.0'' [mkComponent ''web'' [] []]) @ [CHR 0x0A, CHR 0x0A]
       \<noteq> fst (RunProcessAndCaptureOutput
                (trimming_world
                   (renderManifest (mkManifest ''1.0.0'' [mkComponent ''web'' [] []])
                      @ [CHR 0x0A, CHR 0x0A])
                   (renderManifest (mkManifest ''1.0.0'' [mkComponent ''web'' [] []]))
                   (mkManifest ''1.0.0'' [mkComponent ''web'' [] []]))
                ''git'' [''show'', ''HEAD~1:'' @ filepath_Join ''pkg'' ''zarf.yaml''])
   \<and> validateVersionIncrement
       (trimming_world
          (renderManifest (mkManifest ''1.0.0'' [mkComponent ''web'' [] []])
             @ [CHR 0x0A, CHR 0x0A])
          (renderManifest (mkManifest ''1.0.0'' [mkComponent ''web'' [] []]))
          (mkManifest ''1.0.0'' [mkComponent ''web'' [] []]))
       ''pkg'' newResult
       = Inr newResult"
  by (simp add: validateVersionIncrement_def trimming_world_def world_eval strings_eval)

section \<open>Cycles and diamonds\<close>

text \<open>
  Claim C6, for the components as the pass resolves them.  Let the manifest be
  readable.
  (1) Let the declared components \<open>ca\<close> and \<open>cb\<close> list each other's name in their
  \<open>depsWith\<close>, where component names are unique or, more generally, the component that
  the component map of the pass holds under the name of \<open>cb\<close> (the last one declared
  with it) lists the name of \<open>ca\<close> too.  Then the dependency pass records the error
  "Circular dependency detected between ca and cb".
  (2) Let the declared components be those of the diamond a \<rightarrow> b, a \<rightarrow> c, b \<rightarrow> d, c \<rightarrow> d
  over four different names, declared in any order, each listing its dependencies in any
  order.  Then the pass leaves the result as it was: it records no cycle error (and no
  other error).
\<close>

theorem dependency_pass_cycle_and_diamond:
  assumes "ReadZarfYaml w (filepath_Join packagePath ''zarf.yaml'') = Inr zarfYaml"
  shows "(ca \<in> set (Components zarfYaml) \<and> cb \<in> set (Components zarfYaml)
          \<and> Name cb \<in> set (DepsWith ca) \<and> Name ca \<in> set (DepsWith cb)
          \<and> (distinct (map Name (Components zarfYaml))
              \<or> (\<exists>target. fmlookup (buildComponentMap (Components zarfYaml) fmempty) (Name cb)
                             = Some target
                           \<and> Name ca \<in> set (DepsWith target)))
          \<longrightarrow> (\<exists>recorded.
                 validateComponentDependencies w packagePath result
                   = Inr (result\<lparr>Errors := Errors result @ recorded\<rparr>)
                 \<and> ''Circular dependency detected between '' @ sq @ Name ca @ sq @ '' and ''
                     @ sq @ Name cb @ sq \<in> set recorded))
         \<and> (distinct [a, b, c, d]
            \<and> (\<lambda>component. (Name component, set (DepsWith component)))
                  ` set (Components zarfYaml)
                = {(a, {b, c}), (b, {d}), (c, {d}), (d, {})}
            \<longrightarrow> validateComponentDependencies w packagePath result = Inr result)"
proof (intro conjI impI)
  let ?m = "buildComponentMap (Components zarfYaml) fmempty"
  let ?recorded = "concat (map (\<lambda>component. componentDepErrors component ?m)
                             (Components zarfYaml))"
  assume h: "ca \<in> set (Components zarfYaml) \<and> cb \<in> set (Components zarfYaml)
          \<and> Name cb \<in> set (DepsWith ca) \<and> Name ca \<in> set (DepsWith cb)
          \<and> (distinct (map Name (Components zarfYaml))
              \<or> (\<exists>target. fmlookup ?m (Name cb) = Some target
                           \<and> Name ca \<in> set (DepsWith target)))"
  then have h1: "Name cb \<in> set (DepsWith ca)"
    by simp
  from h obtain target where
    t: "fmlookup ?m (Name cb) = Some target" and l: "Name ca \<in> set (DepsWith target)"
    by (auto simp: buildComponentMap_distinct)
  have "''Circular dependency detected between '' @ sq @ Name ca @ sq @ '' and ''
          @ sq @ Name cb @ sq \<in> set (componentDepErrors ca ?m)"
    by (rule componentDepErrors_cycle [OF h1 t l])
  with h have "''Circular dependency detected between '' @ sq @ Name ca @ sq @ '' and ''
                 @ sq @ Name cb @ sq \<in> set ?recorded"
    by auto
  with validateComponentDependencies_eq [OF assms, of result]
  show "\<exists>recorded.
          validateComponentDependencies w packagePath result
            = Inr (result\<lparr>Errors := Errors result @ recorded\<rparr>)
          \<and> ''Circular dependency detected between '' @ sq @ Name ca @ sq @ '' and ''
              @ sq @ Name cb @ sq \<in> set recorded"
    by blast
next
  assume h: "distinct [a, b, c, d]
            \<and> (\<lambda>component. (Name component, set (DepsWith component)))
                  ` set (Components zarfYaml)
                = {(a, {b, c}), (b, {d}), (c, {d}), (d, {})}"
  then have "concat (map (\<lambda>component. componentDepErrors component
                        (buildComponentMap (Components zarfYaml) fmempty))
                   (Components zarfYaml)) = []"
    by (intro diamond_no_errors [of a b c d]) simp_all
  with validateComponentDependencies_eq [OF assms, of result]
  show "validateComponentDependencies w packagePath result = Inr result"
    by simp
qed

theorem dependency_pass_cycle_and_diamond_witness:
  "(\<exists>recorded.
      validateComponentDependencies
        (one_package_world
           (mkManifest ''1.0.0'' [mkComponent ''a'' [''b''] [], mkComponent ''b'' [''a''] []])
           None ([], None) None)
        ''pkg'' newResult
        = Inr (newResult\<lparr>Errors := Errors newResult @ recorded\<rparr>)
      \<and> ''Circular dependency detected between 'a' and 'b'' @ sq \<in> set recorded)
   \<and> validateComponentDependencies
        (one_package_world
           (mkManifest ''1.0.0''
              [mkComponent ''c'' [''d''] [], mkComponent ''a'' [''c'', ''b''] [],
               mkComponent ''d'' [] [], mkComponent ''b'' [''d''] []])
           None ([], None) None)
        ''pkg'' newResult
        = Inr newResult"
proof
  let ?ca = "mkComponent ''a'' [''b''] []"
  let ?cb = "mkComponent ''b'' [''a''] []"
  let ?z = "mkManifest ''1.0.0'' [?ca, ?cb]"
  let ?w = "one_package_world ?z None ([], None) None"
  have hyp: "?ca \<in> set (Components ?z) \<and> ?cb \<in> set (Components ?z)
             \<and> Name ?cb \<in> set (DepsWith ?ca) \<and> Name ?ca \<in> set (DepsWith ?cb)
             \<and> (distinct (map Name (Components ?z))
                 \<or> (\<exists>target. fmlookup (buildComponentMap (Components ?z) fmempty) (Name ?cb)
                                = Some target
                              \<and> Name ?ca \<in> set (DepsWith target)))"
    by (simp add: mkManifest_def mkComponent_def)
  from dependency_pass_cycle_and_diamond
         [OF read_one_package_world [of ?z None "([], None)" None],
          where ca = ?ca and cb = ?cb and result = newResult,
          THEN conjunct1, THEN mp, OF hyp]
  have "\<exists>recorded.
          validateComponentDependencies ?w ''pkg'' newResult
            = Inr (newResult\<lparr>Errors := Errors newResult @ recorded\<rparr>)
          \<and> ''Circular dependency detected between '' @ sq @ Name ?ca @ sq @ '' and ''
               @ sq @ Name ?cb @ sq \<in> set recorded" .
  then show "\<exists>recorded.
      validateComponentDependencies ?w ''pkg'' newResult
        = Inr (newResult\<lparr>Errors := Errors newResult @ recorded\<rparr>)
      \<and> ''Circular dependency detected between 'a' and 'b'' @ sq \<in> set recorded"
    by (simp add: mkComponent_def)
next
  let ?z = "mkManifest ''1.0.0''
              [mkComponent ''c'' [''d''] [], mkComponent ''a'' [''c'', ''b''] [],
               mkComponent ''d'' [] [], mkComponent ''b'' [''d''] []]"
  have hyp: "distinct [''a'', ''b'', ''c'', ''d'']
             \<and> (\<lambda>component. (Name component, set (DepsWith component))) ` set (Components ?z)
                 = {(''a'', {''b'', ''c''}), (''b'', {''d''}), (''c'', {''d''}), (''d'', {})}"
    by (auto simp: mkManifest_def mkComponent_def)
  from dependency_pass_cycle_and_diamond
         [OF read_one_package_world [of ?z None "([], None)" None],
          where a = "''a''" and b = "''b''" and c = "''c''" and d = "''d''"
            and result = newResult, THEN conjunct2, THEN mp, OF hyp]
  show "validateComponentDependencies (one_package_world ?z None ([], None) None)
          ''pkg'' newResult = Inr newResult" .
qed

text \<open>
  Claim C6 as stated fails when names repeat.  The pass resolves a name to the last
  component declared with it.  Here the
  components \<open>a\<close> and \<open>b\<close> that list each other are declared, and so are a second \<open>a\<close>
  and a second \<open>b\<close> that list nothing: the declared components hold the two-node cycle
  a \<rightarrow> b \<rightarrow> a, the component map holds the second \<open>a\<close> and the second \<open>b\<close>, no search
  finds a way back, and the pass records nothing.
\<close>

theorem dependency_cycle_counterexample:
  "mkComponent ''a'' [''b''] []
     \<in> set (Components (mkManifest ''1.0.0''
               [mkComponent ''a'' [''b''] [], mkComponent ''b'' [''a''] [],
                mkComponent ''a'' [] [], mkComponent ''b'' [] []]))
   \<and> mkComponent ''b'' [''a''] []
       \<in> set (Components (mkManifest ''1.0.0''
                 [mkComponent ''a'' [''b''] [], mkComponent ''b'' [''a''] [],
                  mkComponent ''a'' [] [], mkComponent ''b'' [] []]))
   \<and> Name (mkComponent ''b'' [''a''] []) \<in> set (DepsWith (mkComponent ''a'' [''b''] []))
   \<and> Name (mkComponent ''a'' [''b''] []) \<in> set (DepsWith (mkComponent ''b'' [''a''] []))
   \<and> validateComponentDependencies
       (one_package_world
          (mkManifest ''1.0.0''
             [mkComponent ''a'' [''b''] [], mkComponent ''b'' [''a''] [],
              mkComponent ''a'' [] [], mkComponent ''b'' [] []])
          None ([], None) None)
       ''pkg'' newResult
       = Inr newResult"
  by (simp add: validateComponentDependencies_def world_eval validateDeps_step_def
        hasDependencyCycle.simps appendError_def)

section \<open>Duplicate component names\<close>

text \<open>
  Claim C7.  When the manifest is readable, the component pass appends to \<open>Errors\<close> a
  list \<open>recorded\<close> in which, for every name, the error "Duplicate component name: name"
  occurs once less often than the name occurs among the components: \<open>n - 1\<close> times for a
  name that occurs \<open>n \<ge> 2\<close> times, and not at all for a name that occurs once (or
  never; the subtraction on natural numbers stops at 0).
\<close>

theorem duplicate_name_errors_count:
  assumes "ReadZarfYaml w (filepath_Join packagePath ''zarf.yaml'') = Inr zarfYaml"
  shows "\<exists>result' recorded.
           validateComponents w packagePath result = Inr result'
           \<and> Errors result' = Errors result @ recorded
           \<and> (\<forall>name. count_list recorded (''Duplicate component name: '' @ name)
                        = count_list (map Name (Components zarfYaml)) name - 1)"
proof (cases "Components zarfYaml = []")
  case True
  with assms show ?thesis
    by (simp add: validateComponents_def appendWarning_def)
next
  case False
  with assms have "validateComponents w packagePath result
                     = Inr (validateComponents_loop w (Components zarfYaml) {} result)"
    by (simp add: validateComponents_def)
  moreover have "\<forall>name. count_list (duplicateErrors (Components zarfYaml) {})
                           (''Duplicate component name: '' @ name)
                         = count_list (map Name (Components zarfYaml)) name - 1"
    by (intro allI, subst count_duplicateErrors) simp
  ultimately show ?thesis
    by (simp add: validateComponents_loop_fields)
qed

theorem duplicate_name_errors_count_witness:
  "\<exists>result' recorded.
     validateComponents
       (one_package_world
          (mkManifest ''1.0.0''
             [mkComponent ''a'' [] [], mkComponent ''a'' [] [], mkComponent ''b'' [] [],
              mkComponent ''a'' [] []])
          None ([], None) None)
       ''pkg'' newResult = Inr result'
     \<and> Errors result' = Errors newResult @ recorded
     \<and> count_list recorded ''Duplicate component name: a'' = 2
     \<and> count_list recorded ''Duplicate component name: b'' = 0"
proof -
  let ?z = "mkManifest ''1.0.0''
             [mkComponent ''a'' [] [], mkComponent ''a'' [] [], mkComponent ''b'' [] [],
              mkComponent ''a'' [] []]"
  from duplicate_name_errors_count
         [OF read_one_package_world [of ?z None "([], None)" None], of newResult]
  obtain result' recorded where
    r: "validateComponents (one_package_world ?z None ([], None) None) ''pkg'' newResult
          = Inr result'"
    and e: "Errors result' = Errors newResult @ recorded"
    and c: "\<And>name. count_list recorded (''Duplicate component name: '' @ name)
                     = count_list (map Name (Components ?z)) name - 1"
    by blast
  from c [of "''a''"] have "count_list recorded ''Duplicate component name: a'' = 2"
    by (simp add: mkManifest_def mkComponent_def)
  moreover from c [of "''b''"] have "count_list recorded ''Duplicate component name: b'' = 0"
    by (simp add: mkManifest_def mkComponent_def)
  ultimately show ?thesis
    using r e by blast
qed

section \<open>The image-pinning pass\<close>




section \<open>The package locator\<close>

text \<open>
  Claim C9.  A root directory that does not exist contributes nothing: the locator
  returns for a list of roots that holds it what it returns for the list without it
  (the same packages, or the same error of another root), and for that root alone the
  empty list and no error.
\<close>

theorem missing_root_contributes_nothing:
  assumes "os_Stat w dir = StatNotExist"
  shows "FindZarfPackages w (before @ dir # after) = FindZarfPackages w (before @ after)
         \<and> FindZarfPackages w [dir] = Inr []"
proof
  from assms show "FindZarfPackages w (before @ dir # after) = FindZarfPackages w (before @ after)"
    by (simp add: FindZarfPackages_def FindZarfPackages_loop_missing)
next
  from assms show "FindZarfPackages w [dir] = Inr []"
    by (simp add: FindZarfPackages_def findPackagesInDirectory_missing)
qed

theorem missing_root_contributes_nothing_witness:
  "os_Stat locator_world ''packages'' = StatNotExist
   \<and> FindZarfPackages locator_world [''packages''] = Inr []
   \<and> FindZarfPackages locator_world [''charts'', ''packages''] = Inr [''charts/app'']"
proof -
  have s: "os_Stat locator_world ''packages'' = StatNotExist"
    by (simp add: locator_world_def)
  have c: "FindZarfPackages locator_world [''charts''] = Inr [''charts/app'']"
    by (simp add: FindZarfPackages_def findPackagesInDirectory_def locator_world_def
          filepath_Dir_app)
  from missing_root_contributes_nothing [OF s, of "[''charts'']" "[]"] c s show ?thesis
    by simp
qed

section \<open>Self-dependencies\<close>

text \<open>
  Claim C10, as amended.  Let the manifest be readable and let a declared component
  list its own name in \<open>depsWith\<close>, where component names are unique or, more generally,
  the component that the component map of the pass holds under that name (the last one
  declared with it) lists the name too.  Then the dependency pass records two different
  errors for the self-loop: "cannot depend on itself" and "Circular dependency
  detected".
\<close>

theorem self_dependency_two_errors:
  assumes "ReadZarfYaml w (filepath_Join packagePath ''zarf.yaml'') = Inr zarfYaml"
    and "component \<in> set (Components zarfYaml)"
    and "Name component \<in> set (DepsWith component)"
    and "distinct (map Name (Components zarfYaml))
         \<or> (\<exists>target. fmlookup (buildComponentMap (Components zarfYaml) fmempty)
                         (Name component) = Some target
                      \<and> Name component \<in> set (DepsWith target))"
  shows "\<exists>recorded.
           validateComponentDependencies w packagePath result
             = Inr (result\<lparr>Errors := Errors result @ recorded\<rparr>)
           \<and> ''Component '' @ sq @ Name component @ sq @ '' cannot depend on itself''
               \<in> set recorded
           \<and> ''Circular dependency detected between '' @ sq @ Name component @ sq @ '' and ''
               @ sq @ Name component @ sq \<in> set recorded
           \<and> ''Component '' @ sq @ Name component @ sq @ '' cannot depend on itself''
               \<noteq> ''Circular dependency detected between '' @ sq @ Name component @ sq
                    @ '' and '' @ sq @ Name component @ sq"
proof -
  let ?m = "buildComponentMap (Components zarfYaml) fmempty"
  let ?recorded = "concat (map (\<lambda>component. componentDepErrors component ?m)
                             (Components zarfYaml))"
  from assms(2,3,4) obtain target where
    t: "fmlookup ?m (Name component) = Some target"
    and l: "Name component \<in> set (DepsWith target)"
    by (auto simp: buildComponentMap_distinct)
  have "''Component '' @ sq @ Name component @ sq @ '' cannot depend on itself''
          \<in> set (componentDepErrors component ?m)"
    by (rule componentDepErrors_self [OF assms(3)])
  with assms(2)
  have self: "''Component '' @ sq @ Name component @ sq @ '' cannot depend on itself''
                \<in> set ?recorded"
    by auto
  have "''Circular dependency detected between '' @ sq @ Name component @ sq @ '' and ''
          @ sq @ Name component @ sq \<in> set (componentDepErrors component ?m)"
    by (rule componentDepErrors_cycle [OF assms(3) t l])
  with assms(2)
  have cycle: "''Circular dependency detected between '' @ sq @ Name component @ sq
                 @ '' and '' @ sq @ Name component @ sq \<in> set ?recorded"
    by auto
  have differ: "''Component '' @ sq @ Name component @ sq @ '' cannot depend on itself''
                  \<noteq> ''Circular dependency detected between '' @ sq @ Name component @ sq
                       @ '' and '' @ sq @ Name component @ sq"
    by simp
  from validateComponentDependencies_eq [OF assms(1), of result] self cycle differ
  show ?thesis
    by blast
qed

theorem self_dependency_two_errors_witness:
  "\<exists>recorded.
     validateComponentDependencies
       (one_package_world (mkManifest ''1.0.0'' [mkComponent ''web'' [''web''] []])
          None ([], None) None)
       ''pkg'' newResult
       = Inr (newResult\<lparr>Errors := Errors newResult @ recorded\<rparr>)
     \<and> ''Component 'web' cannot depend on itself'' \<in> set recorded
     \<and> ''Circular dependency detected between 'web' and 'web'' @ sq \<in> set recorded"
proof -
  let ?c = "mkComponent ''web'' [''web''] []"
  let ?z = "mkManifest ''1.0.0'' [?c]"
  have h2: "?c \<in> set (Components ?z)"
    by (simp add: mkManifest_def)
  have h3: "Name ?c \<in> set (DepsWith ?c)"
    by (simp add: mkComponent_def)
  have h4: "distinct (map Name (Components ?z))
            \<or> (\<exists>target. fmlookup (buildComponentMap (Components ?z) fmempty) (Name ?c)
                            = Some target
                         \<and> Name ?c \<in> set (DepsWith target))"
    by (simp add: mkManifest_def)
  from self_dependency_two_errors
         [OF read_one_package_world [of ?z None "([], None)" None] h2 h3 h4, of newResult]
  show ?thesis
    by (simp add: mkComponent_def)
qed

text \<open>
  Claim C10 as stated fails when names repeat.  The first of two components named
  \<open>web\<close> lists \<open>web\<close>, the second lists nothing.  The component map holds the second
  one, the search from \<open>web\<close> finds no way back, and the pass records the
  self-dependency error only.
\<close>

theorem self_dependency_counterexample:
  "validateComponentDependencies
     (one_package_world
        (mkManifest ''1.0.0'' [mkComponent ''web'' [''web''] [], mkComponent ''web'' [] []])
        None ([], None) None)
     ''pkg'' newResult
     = Inr (newResult\<lparr>Errors := [''Component 'web' cannot depend on itself'']\<rparr>)
   \<and> ''Circular dependency detected between 'web' and 'web'' @ sq
       \<notin> set [''Component 'web' cannot depend on itself'']"
  by (simp add: validateComponentDependencies_def world_eval validateDeps_step_def
        hasDependencyCycle.simps appendError_def)

end
